theory Spec2Isabelle
  imports Complex_Main
begin

section \<open>Electronic stamp: compositing pipeline, editing surface and stamp library\<close>

text \<open>
  A shallow embedding of \<^verbatim>\<open>src/utils/pdf.ts\<close>, of the hook \<^verbatim>\<open>useStampAdder\<close> and of
  the upload handler of \<^verbatim>\<open>StampUploader\<close>.

  Conventions of the embedding:
  \<^item> A JavaScript \<^verbatim>\<open>number\<close> that holds a coordinate or a length is a \<^typ>\<open>real\<close>: the
    arithmetic of the source is kept operation by operation, the rounding of IEEE doubles
    is not modelled. A page number is an \<^typ>\<open>int\<close>.
  \<^item> A \<^verbatim>\<open>throw\<close> is the left injection of a sum; every \<^verbatim>\<open>try\<close> block is a function of
    its own (suffix \<open>_try\<close>) and the function that holds the \<^verbatim>\<open>catch\<close> is defined from it.
    The causes that the source only passes to \<^verbatim>\<open>console.error\<close> are the \<open>Inl\<close> values of the
    \<open>_try\<close> functions.
  \<^item> The messages of the source are Korean text with interpolated numbers; each message
    is a constructor of \<open>error\<close> that carries the interpolated numbers.
  \<^item> The libraries the source calls (the browser's \<^verbatim>\<open>atob\<close>, pdf-lib's \<^verbatim>\<open>embedPng\<close>,
    pdf.js rendering) are fields of a record \<open>browser\<close> that every function takes.
  \<^item> The bytes of a PDF file are represented by what they parse to, \<open>PdfOf pages\<close>, or
    \<open>Garbage\<close> when no parser accepts them; \<^verbatim>\<open>pdfDoc.save()\<close> returns the bytes of the
    document it is given, and neither it nor \<^verbatim>\<open>page.drawImage\<close> fails.
  \<^item> An optional argument is an \<open>option\<close>; where the source gives \<^verbatim>\<open>pageNumber\<close> the
    default 1, the caller of the model passes 1.
  \<^item> An asynchronous function that touches no shared state (the compositors, the
    rasterizer) is modelled by the result of its promise. Where a callback runs later on
    the shared store (the \<^verbatim>\<open>onload\<close> of the image element, the \<^verbatim>\<open>onload\<close> of the
    \<^verbatim>\<open>FileReader\<close>), the part run at the call and the callback are functions of their own.
  \<^item> The values that a callback of a React component closes over are those of the render
    that created the callback, not those of the store when it runs: they are a parameter
    of the callback, and a render is a function from the store to these values.
\<close>

subsection \<open>Strings\<close>

text \<open>\<^verbatim>\<open>String.prototype.startsWith\<close>.\<close>

definition startsWith :: "string \<Rightarrow> string \<Rightarrow> bool" where
  "startsWith s p = (take (length p) s = p)"

text \<open>\<^verbatim>\<open>String.prototype.includes\<close>: the pattern occurs at some offset.\<close>

fun includes_str :: "string \<Rightarrow> string \<Rightarrow> bool" where
  "includes_str [] p = (p = [])"
| "includes_str (c # s) p = (startsWith (c # s) p \<or> includes_str s p)"

text \<open>\<^verbatim>\<open>String.prototype.split\<close> with a one-character separator.\<close>

fun split_str :: "string \<Rightarrow> char \<Rightarrow> string list" where
  "split_str [] sep = [[]]"
| "split_str (c # s) sep =
     (if c = sep then [] # split_str s sep
      else (case split_str s sep of
              [] \<Rightarrow> [[c]]
            | piece # pieces \<Rightarrow> (c # piece) # pieces))"

subsection \<open>Errors\<close>

datatype error =
    LoadFailed                \<comment> \<open>the PDF parser rejected the bytes\<close>
  | NotDataURL                \<comment> \<open>pdf.ts 199, 311: the stamp image is not a data URL\<close>
  | DecodeFailed              \<comment> \<open>\<^verbatim>\<open>window.atob\<close> threw\<close>
  | NotPng                    \<comment> \<open>pdf.ts 208, 320: the stamp image is not PNG\<close>
  | EmbedFailed               \<comment> \<open>\<^verbatim>\<open>pdfDoc.embedPng\<close> rejected the bytes\<close>
  | InvalidPageNumber int     \<comment> \<open>pdf.ts 31, 216: "use a value from 1 to P", carries P\<close>
  | RenderFailed              \<comment> \<open>pdf.js could not render the page\<close>
  | PageProcessingFailed int  \<comment> \<open>pdf.ts 61: "error while processing page N", carries N\<close>
  | StampApplyFailed          \<comment> \<open>pdf.ts 262, 374: "error while adding the stamp"\<close>
  | StampNotFound             \<comment> \<open>pdf.ts 126: "stamp information not found"\<close>

subsection \<open>Data model\<close>

text \<open>The placement rectangle \<^verbatim>\<open>{ x, y, width, height }\<close> and the options of \<^verbatim>\<open>drawImage\<close>.\<close>

record rect =
  rect_x :: real
  rect_y :: real
  rect_width :: real
  rect_height :: real

datatype pdf_image = PDFImage "nat list"

text \<open>
  A page: its size (\<^verbatim>\<open>page.getSize()\<close>) and the images drawn on it so far, in drawing
  order.
\<close>

record page =
  page_width :: real
  page_height :: real
  page_drawn :: "(pdf_image \<times> rect) list"

datatype pdf_bytes = Garbage | PdfOf "page list"

record pdf_file =
  file_name :: string
  file_bytes :: pdf_bytes

record browser =
  atob :: "string \<Rightarrow> string option"
  embedPng :: "nat list \<Rightarrow> pdf_image option"
  render :: "page \<Rightarrow> string option"

text \<open>\<^verbatim>\<open>PDFDocument.load\<close> and \<^verbatim>\<open>pdfjsLib.getDocument\<close>.\<close>

fun load :: "pdf_bytes \<Rightarrow> page list option" where
  "load Garbage = None"
| "load (PdfOf pages) = Some pages"

text \<open>\<^verbatim>\<open>page.drawImage(image, options)\<close> adds to the content of the page.\<close>

definition drawImage :: "page \<Rightarrow> pdf_image \<Rightarrow> rect \<Rightarrow> page" where
  "drawImage pg img r = pg\<lparr>page_drawn := page_drawn pg @ [(img, r)]\<rparr>"

record stamp =
  stamp_id :: string
  stamp_src :: string
  stamp_name :: string

record pageStamp =
  ps_pageNumber :: int
  ps_stampId :: string
  ps_position :: rect

subsection \<open>The editing-surface constants (pdf.ts 379-380)\<close>

definition FABRIC_CANVAS_WIDTH :: real where
  "FABRIC_CANVAS_WIDTH = 500"

text \<open>\<^verbatim>\<open>parseFloat(v.toFixed(2))\<close>: the nearest multiple of 1/100.\<close>

definition toFixed2 :: "real \<Rightarrow> real" where
  "toFixed2 v = real_of_int (round (v * 100)) / 100"

definition FABRIC_CANVAS_HEIGHT :: real where
  "FABRIC_CANVAS_HEIGHT = toFixed2 (FABRIC_CANVAS_WIDTH * sqrt 2)"

subsection \<open>The stamp compositor\<close>

text \<open>
  pdf.ts 160-170: the text after the first comma, decoded by \<^verbatim>\<open>atob\<close>, as character
  codes. Without a comma \<^verbatim>\<open>split(',')[1]\<close> is \<^verbatim>\<open>undefined\<close>, which \<^verbatim>\<open>atob\<close> receives as the
  string "undefined".
\<close>

definition dataURLToBytes :: "browser \<Rightarrow> string \<Rightarrow> nat list option" where
  "dataURLToBytes env dataUrl =
     (let base64 = (case split_str dataUrl (CHR '','') of
                      _ # piece # _ \<Rightarrow> piece
                    | _ \<Rightarrow> ''undefined'')
      in case atob env base64 of
           None \<Rightarrow> None
         | Some binaryString \<Rightarrow> Some (map of_char binaryString))"

text \<open>
  pdf.ts 193-204 and 305-316, the same text in both compositors: the checks on the stamp
  image up to the call of \<^verbatim>\<open>embedPng\<close>. The result \<open>Inr imageData\<close> is the argument
  \<^verbatim>\<open>embedPng\<close> is called with.
\<close>

definition checkStampImage :: "browser \<Rightarrow> string \<Rightarrow> error + nat list" where
  "checkStampImage env stampImage =
     (if startsWith stampImage ''data:'' then
        (case dataURLToBytes env stampImage of
           None \<Rightarrow> Inl DecodeFailed
         | Some imageData \<Rightarrow>
             if includes_str stampImage ''image/png'' then Inr imageData
             else Inl NotPng)
      else Inl NotDataURL)"

text \<open>pdf.ts 193-209 and 305-321: the checks, then \<^verbatim>\<open>pdfDoc.embedPng(imageData)\<close>.\<close>

definition embedStamp :: "browser \<Rightarrow> string \<Rightarrow> error + pdf_image" where
  "embedStamp env stampImage =
     (case checkStampImage env stampImage of
        Inl e \<Rightarrow> Inl e
      | Inr imageData \<Rightarrow>
          (case embedPng env imageData of
             None \<Rightarrow> Inl EmbedFailed
           | Some stampPng \<Rightarrow> Inr stampPng))"

text \<open>
  pdf.ts 226-246 and 331-357, the same text in both compositors: the rectangle the stamp
  is drawn at, from the optional placement and the size of the page.
\<close>

definition stampRect :: "rect option \<Rightarrow> real \<Rightarrow> real \<Rightarrow> rect" where
  "stampRect position width height =
     (case position of
        Some pos \<Rightarrow>
          (let scaleX = width / FABRIC_CANVAS_WIDTH;
               scaleY = height / FABRIC_CANVAS_HEIGHT;
               stampWidth = rect_width pos * scaleX;
               stampHeight = rect_height pos * scaleY;
               stampX = rect_x pos * scaleX;
               stampY = height - rect_y pos * scaleY - stampHeight
           in \<lparr>rect_x = stampX, rect_y = stampY,
               rect_width = stampWidth, rect_height = stampHeight\<rparr>)
      | None \<Rightarrow>
          (let stampWidth = 100;
               stampHeight = 100;
               stampX = width / 2 - stampWidth / 2;
               stampY = height / 2 - stampHeight / 2
           in \<lparr>rect_x = stampX, rect_y = stampY,
               rect_width = stampWidth, rect_height = stampHeight\<rparr>))"

text \<open>pdf.ts 223-254: the stamp drawn on one page.\<close>

definition stampOnPage :: "pdf_image \<Rightarrow> rect option \<Rightarrow> page \<Rightarrow> page" where
  "stampOnPage stampPng position pg =
     drawImage pg stampPng (stampRect position (page_width pg) (page_height pg))"

text \<open>pdf.ts 186-259: the \<^verbatim>\<open>try\<close> block of \<^verbatim>\<open>addStampToPDF\<close>.\<close>

definition addStampToPDF_try ::
  "browser \<Rightarrow> pdf_file \<Rightarrow> string \<Rightarrow> rect option \<Rightarrow> int \<Rightarrow> error + pdf_bytes" where
  "addStampToPDF_try env pdfFile stampImage position pageNumber =
     (case load (file_bytes pdfFile) of
        None \<Rightarrow> Inl LoadFailed
      | Some pages \<Rightarrow>
          (case embedStamp env stampImage of
             Inl e \<Rightarrow> Inl e
           | Inr stampPng \<Rightarrow>
               if pageNumber < 1 \<or> pageNumber > int (length pages)
               then Inl (InvalidPageNumber (int (length pages)))
               else
                 (let i = nat (pageNumber - 1)
                  in Inr (PdfOf (pages[i := stampOnPage stampPng position (pages ! i)])))))"

text \<open>pdf.ts 180-264: every cause is replaced by one coarse error.\<close>

definition addStampToPDF ::
  "browser \<Rightarrow> pdf_file \<Rightarrow> string \<Rightarrow> rect option \<Rightarrow> int \<Rightarrow> error + pdf_bytes" where
  "addStampToPDF env pdfFile stampImage position pageNumber =
     (case addStampToPDF_try env pdfFile stampImage position pageNumber of
        Inl _ \<Rightarrow> Inl StampApplyFailed
      | Inr modifiedPdfBytes \<Rightarrow> Inr modifiedPdfBytes)"

text \<open>pdf.ts 324-366: the loop over \<^verbatim>\<open>pages\<close>, from the first page to the last.\<close>

fun stampPages :: "pdf_image \<Rightarrow> rect option \<Rightarrow> page list \<Rightarrow> page list" where
  "stampPages stampPng position [] = []"
| "stampPages stampPng position (pg # pages) =
     stampOnPage stampPng position pg # stampPages stampPng position pages"

text \<open>pdf.ts 297-371: the \<^verbatim>\<open>try\<close> block of \<^verbatim>\<open>addStampToAllPDFPages\<close>.\<close>

definition addStampToAllPDFPages_try ::
  "browser \<Rightarrow> pdf_file \<Rightarrow> string \<Rightarrow> rect option \<Rightarrow> error + pdf_bytes" where
  "addStampToAllPDFPages_try env pdfFile stampImage position =
     (case load (file_bytes pdfFile) of
        None \<Rightarrow> Inl LoadFailed
      | Some pages \<Rightarrow>
          (case embedStamp env stampImage of
             Inl e \<Rightarrow> Inl e
           | Inr stampPng \<Rightarrow> Inr (PdfOf (stampPages stampPng position pages))))"

definition addStampToAllPDFPages ::
  "browser \<Rightarrow> pdf_file \<Rightarrow> string \<Rightarrow> rect option \<Rightarrow> error + pdf_bytes" where
  "addStampToAllPDFPages env pdfFile stampImage position =
     (case addStampToAllPDFPages_try env pdfFile stampImage position of
        Inl _ \<Rightarrow> Inl StampApplyFailed
      | Inr modifiedPdfBytes \<Rightarrow> Inr modifiedPdfBytes)"

subsection \<open>The page rasterizer\<close>

record page_image =
  res_image :: string
  res_error :: "error option"
  res_fileName :: string
  res_pageNumber :: int

text \<open>pdf.ts 26-56: the \<^verbatim>\<open>try\<close> block of \<^verbatim>\<open>pdfPageToImage\<close>.\<close>

definition pdfPageToImage_try :: "browser \<Rightarrow> pdf_file \<Rightarrow> int \<Rightarrow> error + string" where
  "pdfPageToImage_try env file pageNumber =
     (case load (file_bytes file) of
        None \<Rightarrow> Inl LoadFailed
      | Some pages \<Rightarrow>
          if pageNumber < 1 \<or> pageNumber > int (length pages)
          then Inl (InvalidPageNumber (int (length pages)))
          else
            (case render env (pages ! nat (pageNumber - 1)) of
               None \<Rightarrow> Inl RenderFailed
             | Some dataUrl \<Rightarrow> Inr dataUrl))"

text \<open>pdf.ts 15-69: the failure is a value, with an empty image.\<close>

definition pdfPageToImage :: "browser \<Rightarrow> pdf_file \<Rightarrow> int \<Rightarrow> page_image" where
  "pdfPageToImage env file pageNumber =
     (case pdfPageToImage_try env file pageNumber of
        Inr dataUrl \<Rightarrow>
          \<lparr>res_image = dataUrl, res_error = None,
           res_fileName = file_name file, res_pageNumber = pageNumber\<rparr>
      | Inl _ \<Rightarrow>
          \<lparr>res_image = [], res_error = Some (PageProcessingFailed pageNumber),
           res_fileName = file_name file, res_pageNumber = pageNumber\<rparr>)"

subsection \<open>The application store\<close>

text \<open>
  The fields of the store (\<^verbatim>\<open>useStore\<close>) that the modelled functions read and write. A
  placed object is held by reference.
\<close>

type_synonym ref = nat

record store =
  stamps :: "stamp list"
  pageStamps :: "pageStamp list"
  selectedStamp :: "stamp option"
  stampObject :: "ref option"

subsection \<open>Page images with a recorded placement\<close>

text \<open>
  pdf.ts 123-142, the \<^verbatim>\<open>try\<close> block of \<^verbatim>\<open>getPageImageByFile\<close> up to the file built from
  the stamped bytes.
\<close>

definition modifiedPdfFile ::
  "browser \<Rightarrow> store \<Rightarrow> pdf_file \<Rightarrow> int \<Rightarrow> pageStamp \<Rightarrow> error + pdf_file" where
  "modifiedPdfFile env st file pageNumber pageStamp =
     (case find (\<lambda>s. stamp_id s = ps_stampId pageStamp) (stamps st) of
        None \<Rightarrow> Inl StampNotFound
      | Some stamp \<Rightarrow>
          (let position = (ps_position pageStamp)
                 \<lparr>rect_x := max 0 (rect_x (ps_position pageStamp)),
                  rect_y := max 0 (rect_y (ps_position pageStamp))\<rparr>
           in case addStampToPDF env file (stamp_src stamp) (Some position) pageNumber of
                Inl e \<Rightarrow> Inl e
              | Inr modifiedPdfBytes \<Rightarrow>
                  Inr \<lparr>file_name = file_name file, file_bytes = modifiedPdfBytes\<rparr>))"

text \<open>pdf.ts 122-146: the whole \<^verbatim>\<open>try\<close> block.\<close>

definition getPageImageByFile_try ::
  "browser \<Rightarrow> store \<Rightarrow> pdf_file \<Rightarrow> int \<Rightarrow> pageStamp \<Rightarrow> error + string" where
  "getPageImageByFile_try env st file pageNumber pageStamp =
     (case modifiedPdfFile env st file pageNumber pageStamp of
        Inl e \<Rightarrow> Inl e
      | Inr modified \<Rightarrow> Inr (res_image (pdfPageToImage env modified pageNumber)))"

text \<open>pdf.ts 107-153.\<close>

definition getPageImageByFile :: "browser \<Rightarrow> store \<Rightarrow> pdf_file \<Rightarrow> int \<Rightarrow> string" where
  "getPageImageByFile env st file pageNumber =
     (case find (\<lambda>s. ps_pageNumber s = pageNumber) (pageStamps st) of
        None \<Rightarrow> res_image (pdfPageToImage env file pageNumber)
      | Some pageStamp \<Rightarrow>
          (case getPageImageByFile_try env st file pageNumber pageStamp of
             Inr stamped \<Rightarrow> stamped
           | Inl _ \<Rightarrow> res_image (pdfPageToImage env file pageNumber)))"

subsection \<open>The editing surface (\<^verbatim>\<open>useStampAdder\<close>)\<close>

text \<open>
  The objects of the canvas live in a heap; the canvas and the store hold references.
  \<open>ed_next\<close> is the next unused reference, so that \<^verbatim>\<open>new fabric.FabricImage\<close> yields an
  object distinct from every earlier one.
\<close>

record fabric_image =
  fi_width :: real
  fi_height :: real
  fi_scaleX :: real
  fi_scaleY :: real
  fi_left :: real
  fi_top :: real

record canvas =
  canvas_width :: real
  canvas_height :: real
  canvas_objects :: "ref list"
  canvas_active :: "ref option"

record editor =
  ed_store :: store
  ed_canvas :: canvas
  ed_heap :: "ref \<Rightarrow> fabric_image option"
  ed_next :: ref

text \<open>
  useStampAdder 390 and 466: a render of the hook reads \<^verbatim>\<open>selectedStamp\<close> and
  \<^verbatim>\<open>stampObject\<close> from the store, and the callback \<^verbatim>\<open>addStampToCanvas\<close> it returns works
  with these two values for as long as it is used, also after the store has changed.
\<close>

record stamp_adder =
  sa_selectedStamp :: "stamp option"
  sa_stampObject :: "ref option"

definition useStampAdder :: "store \<Rightarrow> stamp_adder" where
  "useStampAdder st =
     \<lparr>sa_selectedStamp = selectedStamp st, sa_stampObject = stampObject st\<rparr>"

text \<open>
  What becomes of the image element after \<^verbatim>\<open>img.src\<close> is set: \<^verbatim>\<open>onload\<close> with the size of
  the image, \<^verbatim>\<open>onerror\<close>, or \<^verbatim>\<open>onload\<close> with the constructor of the fabric image throwing.
\<close>

datatype image_load = Loaded real real | LoadError | FabricError

text \<open>
  \<^verbatim>\<open>canvas.remove(object)\<close>: an object that is on the canvas is taken off it and is no
  longer the active one; for an object that is not on the canvas nothing happens.
\<close>

definition canvas_remove :: "canvas \<Rightarrow> ref \<Rightarrow> canvas" where
  "canvas_remove cv r =
     (if r \<in> set (canvas_objects cv) then
        cv\<lparr>canvas_objects := remove1 r (canvas_objects cv),
           canvas_active := (if canvas_active cv = Some r then None else canvas_active cv)\<rparr>
      else cv)"

text \<open>
  useStampAdder 404-409: the object that the callback holds as \<^verbatim>\<open>stampObject\<close> is taken
  off the canvas and the reference of the store is set to \<^verbatim>\<open>null\<close>.
\<close>

definition removePlaced :: "stamp_adder \<Rightarrow> editor \<Rightarrow> editor" where
  "removePlaced hook ed =
     (case sa_stampObject hook of
        None \<Rightarrow> ed
      | Some r \<Rightarrow>
          ed\<lparr>ed_canvas := canvas_remove (ed_canvas ed) r,
             ed_store := (ed_store ed)\<lparr>stampObject := None\<rparr>\<rparr>)"

text \<open>useStampAdder 417-425: the new image, scaled down uniformly to at most 100 units.\<close>

definition newFabricImage :: "real \<Rightarrow> real \<Rightarrow> fabric_image" where
  "newFabricImage w h =
     (let fabricImg = \<lparr>fi_width = w, fi_height = h, fi_scaleX = 1, fi_scaleY = 1,
                       fi_left = 0, fi_top = 0\<rparr>;
          maxSize = 100
      in if fi_width fabricImg \<noteq> 0 \<and> fi_height fabricImg \<noteq> 0 then
           (if fi_width fabricImg > maxSize \<or> fi_height fabricImg > maxSize then
              (let scale = min (maxSize / fi_width fabricImg) (maxSize / fi_height fabricImg)
               in fabricImg\<lparr>fi_scaleX := scale, fi_scaleY := scale\<rparr>)
            else fabricImg)
         else fabricImg)"

text \<open>
  useStampAdder 415-445: the \<^verbatim>\<open>onload\<close> callback, run on the editor as it is when the
  image has loaded.
\<close>

definition img_onload :: "editor \<Rightarrow> real \<Rightarrow> real \<Rightarrow> editor" where
  "img_onload ed w h =
     (let img = newFabricImage w h;
          cv = ed_canvas ed;
          fabricImg = img\<lparr>fi_left := canvas_width cv / 2 - (fi_width img * fi_scaleX img) / 2,
                          fi_top := canvas_height cv / 2 - (fi_height img * fi_scaleY img) / 2\<rparr>;
          r = ed_next ed
      in ed\<lparr>ed_heap := (ed_heap ed)(r \<mapsto> fabricImg),
            ed_next := Suc r,
            ed_canvas := cv\<lparr>canvas_objects := canvas_objects cv @ [r],
                             canvas_active := Some r\<rparr>,
            ed_store := (ed_store ed)\<lparr>stampObject := Some r\<rparr>\<rparr>)"

text \<open>
  useStampAdder 396-467, awaited: the part run at the call, then the callback of the
  image, with nothing in between; the editor afterwards and the value the promise
  resolves to.
\<close>

definition addStampToCanvas :: "stamp_adder \<Rightarrow> editor \<Rightarrow> image_load \<Rightarrow> editor \<times> bool" where
  "addStampToCanvas hook ed outcome =
     (case sa_selectedStamp hook of
        None \<Rightarrow> (ed, False)
      | Some _ \<Rightarrow>
          (let cleared = removePlaced hook ed
           in case outcome of
                Loaded w h \<Rightarrow> (img_onload cleared w h, True)
              | LoadError \<Rightarrow> (cleared, False)
              | FabricError \<Rightarrow> (cleared, False)))"

text \<open>The callback of one render, awaited again and again.\<close>

fun placeAll :: "stamp_adder \<Rightarrow> editor \<Rightarrow> image_load list \<Rightarrow> editor" where
  "placeAll hook ed [] = ed"
| "placeAll hook ed (outcome # outcomes) =
     placeAll hook (fst (addStampToCanvas hook ed outcome)) outcomes"

text \<open>Place operations awaited one after the other, with a render of the hook before each.\<close>

fun placeAll_rendered :: "editor \<Rightarrow> image_load list \<Rightarrow> editor" where
  "placeAll_rendered ed [] = ed"
| "placeAll_rendered ed (outcome # outcomes) =
     placeAll_rendered
       (fst (addStampToCanvas (useStampAdder (ed_store ed)) ed outcome)) outcomes"

text \<open>
  The objects on the canvas are \<open>others\<close> followed by the referenced placed object, if
  there is one; no object is there twice and every reference is allocated.
\<close>

definition single_placed :: "ref list \<Rightarrow> editor \<Rightarrow> bool" where
  "single_placed others ed =
     (canvas_objects (ed_canvas ed) =
        others @ (case stampObject (ed_store ed) of None \<Rightarrow> [] | Some r \<Rightarrow> [r])
      \<and> distinct (canvas_objects (ed_canvas ed))
      \<and> list_all (\<lambda>r. r < ed_next ed) (canvas_objects (ed_canvas ed)))"

subsection \<open>The stamp library (\<^verbatim>\<open>StampUploader\<close>)\<close>

text \<open>
  What one change event of the file input brings: the name of the chosen file if there
  is one, the verdict of \<^verbatim>\<open>validateStampFile\<close>, the result of the \<^verbatim>\<open>FileReader\<close> if its
  \<^verbatim>\<open>onload\<close> fires, and the identifier \<^verbatim>\<open>uuidv4()\<close> returns there.
\<close>

record upload =
  up_file :: "string option"
  up_valid :: bool
  up_result :: "string option"
  up_uuid :: string

text \<open>A \<^verbatim>\<open>FileReader\<close> that has been started and whose \<^verbatim>\<open>onload\<close> has not run yet.\<close>

record reading =
  rd_name :: string
  rd_result :: "string option"
  rd_uuid :: string

text \<open>
  StampUploader 68-109, the part run at the change event: the test on the number of
  assets, made on the \<^verbatim>\<open>stamps\<close> of the render that created the handler, the validation,
  and \<^verbatim>\<open>reader.readAsDataURL\<close>. The result is the reader that was started, if one was.
  The handler does not write to the store.
\<close>

definition handleStampChange :: "stamp list \<Rightarrow> upload \<Rightarrow> reading option" where
  "handleStampChange rendered_stamps e =
     (case up_file e of
        None \<Rightarrow> None
      | Some selectedFileName \<Rightarrow>
          if length rendered_stamps \<ge> 5 then None
          else if up_valid e then
            Some \<lparr>rd_name = selectedFileName, rd_result = up_result e, rd_uuid = up_uuid e\<rparr>
          else None)"

text \<open>
  StampUploader 87-98: \<^verbatim>\<open>reader.onload\<close>, run on the store as it is when the file has
  been read. The store action \<^verbatim>\<open>addStamp\<close> is defined outside the modelled files and is
  a parameter; a non-empty string is what JavaScript takes as true. A reader that fails
  has no result and its \<^verbatim>\<open>onload\<close> does not run.
\<close>

definition reader_onload :: "(store \<Rightarrow> stamp \<Rightarrow> store) \<Rightarrow> store \<Rightarrow> reading \<Rightarrow> store" where
  "reader_onload addStamp st r =
     (case rd_result r of
        None \<Rightarrow> st
      | Some result \<Rightarrow>
          if result \<noteq> [] then
            addStamp st \<lparr>stamp_id = rd_uuid r, stamp_src = result, stamp_name = rd_name r\<rparr>
          else st)"

text \<open>StampUploader 115-118, with the store action \<^verbatim>\<open>removeStamp\<close> as a parameter.\<close>

definition handleStampRemove ::
  "(store \<Rightarrow> string \<Rightarrow> store) \<Rightarrow> store \<Rightarrow> string \<Rightarrow> store" where
  "handleStampRemove removeStamp st stampId = removeStamp st stampId"



text \<open>
  The uploader: the store, the \<^verbatim>\<open>stamps\<close> that the last render of the component read
  from it, and the readers in progress, oldest first.
\<close>

record uploader =
  ul_store :: store
  ul_stamps :: "stamp list"
  ul_reading :: "reading list"

text \<open>
  What can happen to the uploader: the component renders, the file input changes, the
  oldest reader in progress finishes, an asset is removed.
\<close>

datatype library_event = Render | Change upload | ReaderLoad | Remove string

fun library_step ::
  "(store \<Rightarrow> stamp \<Rightarrow> store) \<Rightarrow> (store \<Rightarrow> string \<Rightarrow> store) \<Rightarrow> uploader \<Rightarrow> library_event
     \<Rightarrow> uploader" where
  "library_step addStamp removeStamp u Render = u\<lparr>ul_stamps := stamps (ul_store u)\<rparr>"
| "library_step addStamp removeStamp u (Change e) =
     (case handleStampChange (ul_stamps u) e of
        None \<Rightarrow> u
      | Some r \<Rightarrow> u\<lparr>ul_reading := ul_reading u @ [r]\<rparr>)"
| "library_step addStamp removeStamp u ReaderLoad =
     (case ul_reading u of
        [] \<Rightarrow> u
      | r # rs \<Rightarrow> u\<lparr>ul_store := reader_onload addStamp (ul_store u) r, ul_reading := rs\<rparr>)"
| "library_step addStamp removeStamp u (Remove stampId) =
     u\<lparr>ul_store := handleStampRemove removeStamp (ul_store u) stampId\<rparr>"

fun library_run ::
  "(store \<Rightarrow> stamp \<Rightarrow> store) \<Rightarrow> (store \<Rightarrow> string \<Rightarrow> store) \<Rightarrow> uploader
     \<Rightarrow> library_event list \<Rightarrow> uploader" where
  "library_run addStamp removeStamp u [] = u"
| "library_run addStamp removeStamp u (ev # evs) =
     library_run addStamp removeStamp (library_step addStamp removeStamp u ev) evs"

text \<open>
  One upload from the change event to the end of its reader, with a render before it
  and nothing else in between.
\<close>

definition settled_upload :: "upload \<Rightarrow> library_event list" where
  "settled_upload e = [Render, Change e, ReaderLoad]"

subsection \<open>The transform as the specification words it\<close>

text \<open>
  Section 4.1 of the specification, \<open>toPageSpace(editingRect, pageGeometry)\<close>, written
  from its sentences (surface 500 by 707.11, the horizontal coordinate clamped at 0), to
  be compared with \<open>stampRect\<close>, which is written from the source.
\<close>

definition toPageSpace_spec :: "rect \<Rightarrow> real \<Rightarrow> real \<Rightarrow> rect" where
  "toPageSpace_spec editingRect pageWidth pageHeight =
     (let scaleX = pageWidth / 500;
          scaleY = pageHeight / (70711 / 100);
          w = rect_width editingRect * scaleX;
          h = rect_height editingRect * scaleY
      in \<lparr>rect_x = max 0 (rect_x editingRect * scaleX),
          rect_y = pageHeight - (rect_y editingRect * scaleY) - h,
          rect_width = w, rect_height = h\<rparr>)"

subsection \<open>Concrete inputs\<close>

text \<open>
  A PNG file of one red pixel (signature, \<open>IHDR\<close>, \<open>IDAT\<close>, \<open>IEND\<close>) and its data URL.
\<close>

definition png_1x1 :: "nat list" where
  "png_1x1 =
     [137, 80, 78, 71, 13, 10, 26, 10, 0, 0, 0, 13, 73, 72, 68, 82, 0, 0, 0, 1, 0, 0, 0, 1,
      8, 6, 0, 0, 0, 31, 21, 196, 137, 0, 0, 0, 13, 73, 68, 65, 84, 120, 218, 99, 248, 207,
      192, 240, 31, 0, 5, 0, 1, 255, 86, 199, 47, 13, 0, 0, 0, 0, 73, 69, 78, 68, 174, 66,
      96, 130]"

definition png_1x1_base64 :: string where
  "png_1x1_base64 =
     ''iVBORw0KGgoAAAANSUhEUgAAAAEAAAABCAYAAAAfFcSJAAAADUlEQVR42mP4z8DwHwAFAAH/VscvDQAAAABJRU5ErkJggg==''"

definition stamp_png :: string where
  "stamp_png = ''data:image/png;base64,'' @ png_1x1_base64"

definition png_signature :: "nat list" where
  "png_signature = [137, 80, 78, 71, 13, 10, 26, 10]"

text \<open>
  A browser whose \<^verbatim>\<open>atob\<close> decodes three payloads as the real one does (the PNG above,
  the eight bytes of the PNG signature, and nine bytes that are no image) and rejects
  everything else, among it the string "undefined"; whose \<^verbatim>\<open>embedPng\<close> accepts the PNG
  above and no other bytes; and whose renderer labels a page by whether an image is
  drawn on it.
\<close>

definition browser0 :: browser where
  "browser0 =
     \<lparr>atob = (\<lambda>s. if s = png_1x1_base64 then Some (map char_of png_1x1)
                   else if s = ''iVBORw0KGgo='' then Some (map char_of png_signature)
                   else if s = ''image/pngAAA''
                   then Some (map char_of [138, 102, 160, 123, 250, 103, 128, 0, 0 :: nat])
                   else None),
      embedPng = (\<lambda>bs. if bs = png_1x1 then Some (PDFImage bs) else None),
      render = (\<lambda>pg. Some (if page_drawn pg = [] then ''data:image/png;base64,PLAIN''
                            else ''data:image/png;base64,STAMPED''))\<rparr>"

text \<open>The same browser, except that rendering a page with an image drawn on it fails.\<close>

definition browser1 :: browser where
  "browser1 =
     browser0\<lparr>render := (\<lambda>pg. if page_drawn pg = [] then Some ''data:image/png;base64,PLAIN''
                               else None)\<rparr>"

definition a4 :: page where
  "a4 = \<lparr>page_width = 595, page_height = 842, page_drawn = []\<rparr>"

definition letter :: page where
  "letter = \<lparr>page_width = 612, page_height = 792, page_drawn = []\<rparr>"

definition doc2 :: pdf_file where
  "doc2 = \<lparr>file_name = ''doc.pdf'', file_bytes = PdfOf [a4, letter]\<rparr>"

definition broken :: pdf_file where
  "broken = \<lparr>file_name = ''broken.pdf'', file_bytes = Garbage\<rparr>"

definition place0 :: rect where
  "place0 = \<lparr>rect_x = 50, rect_y = 20, rect_width = 100, rect_height = 100\<rparr>"

definition place_left :: rect where
  "place_left = \<lparr>rect_x = - 10, rect_y = - 20, rect_width = 100, rect_height = 100\<rparr>"

definition seal :: stamp where
  "seal = \<lparr>stamp_id = ''s1'', stamp_src = stamp_png, stamp_name = ''seal.png''\<rparr>"

definition store0 :: store where
  "store0 =
     \<lparr>stamps = [seal],
      pageStamps = [\<lparr>ps_pageNumber = 1, ps_stampId = ''s1'', ps_position = place_left\<rparr>],
      selectedStamp = Some seal,
      stampObject = None\<rparr>"

definition editor0 :: editor where
  "editor0 =
     \<lparr>ed_store = store0,
      ed_canvas = \<lparr>canvas_width = 500, canvas_height = 70711 / 100,
                   canvas_objects = [], canvas_active = None\<rparr>,
      ed_heap = (\<lambda>_. None),
      ed_next = 0\<rparr>"



text \<open>A library of four assets, rendered, with no reader in progress; and one of five.\<close>

definition store4 :: store where
  "store4 = store0\<lparr>stamps := [seal, seal\<lparr>stamp_id := ''s2''\<rparr>, seal\<lparr>stamp_id := ''s3''\<rparr>,
                              seal\<lparr>stamp_id := ''s4''\<rparr>]\<rparr>"


definition store5 :: store where
  "store5 = store4\<lparr>stamps := stamps store4 @ [seal\<lparr>stamp_id := ''s5''\<rparr>]\<rparr>"

section \<open>Properties\<close>

subsection \<open>The surface constants\<close>

lemma sqrt2_lower: "70710.5 / 50000 < sqrt 2"
  by (rule real_less_rsqrt) (simp add: power2_eq_square)

lemma sqrt2_upper: "sqrt 2 < 70711.5 / 50000"
  by (rule real_less_lsqrt) (simp_all add: power2_eq_square)

text \<open>The height of the editing surface is 707.11.\<close>

lemma FABRIC_CANVAS_HEIGHT_eq [code]: "FABRIC_CANVAS_HEIGHT = 70711 / 100"
proof -
  have "round (500 * sqrt 2 * 100) = 70711"
    using sqrt2_lower sqrt2_upper by (simp add: round_def floor_eq_iff)
  then show ?thesis
    by (simp add: FABRIC_CANVAS_HEIGHT_def FABRIC_CANVAS_WIDTH_def toFixed2_def)
qed

lemmas surface = FABRIC_CANVAS_WIDTH_def FABRIC_CANVAS_HEIGHT_eq

subsection \<open>Strings\<close>

lemma startsWith_iff: "startsWith s p \<longleftrightarrow> (\<exists>b. s = p @ b)"
  unfolding startsWith_def by (metis append_eq_conv_conj append_take_drop_id)

lemma includes_str_iff: "includes_str s p \<longleftrightarrow> (\<exists>a b. s = a @ p @ b)"
proof (induction s)
  case Nil
  then show ?case by auto
next
  case (Cons c s)
  show ?case
  proof
    assume "includes_str (c # s) p"
    then consider "startsWith (c # s) p" | "includes_str s p" by auto
    then show "\<exists>a b. c # s = a @ p @ b"
    proof cases
      case 1
      then have "c # s = [] @ p @ drop (length p) (c # s)"
        unfolding startsWith_def by (metis append_Nil append_take_drop_id)
      then show ?thesis by blast
    next
      case 2
      then obtain a b where "s = a @ p @ b" using Cons.IH by blast
      then have "c # s = (c # a) @ p @ b" by simp
      then show ?thesis by blast
    qed
  next
    assume "\<exists>a b. c # s = a @ p @ b"
    then obtain a b where ab: "c # s = a @ p @ b" by blast
    show "includes_str (c # s) p"
    proof (cases a)
      case Nil
      then have "startsWith (c # s) p" using ab by (simp add: startsWith_def)
      then show ?thesis by simp
    next
      case (Cons d a')
      then have "s = a' @ p @ b" using ab by simp
      then show ?thesis using Cons.IH by auto
    qed
  qed
qed

subsection \<open>The rectangle of the stamp\<close>

lemma stampRect_Some:
  "stampRect (Some pos) W H =
     \<lparr>rect_x = rect_x pos * (W / 500),
      rect_y = H - rect_y pos * (H / (70711 / 100)) - rect_height pos * (H / (70711 / 100)),
      rect_width = rect_width pos * (W / 500),
      rect_height = rect_height pos * (H / (70711 / 100))\<rparr>"
  by (simp add: stampRect_def surface Let_def)

lemma stampRect_None:
  "stampRect None W H =
     \<lparr>rect_x = W / 2 - 50, rect_y = H / 2 - 50, rect_width = 100, rect_height = 100\<rparr>"
  by (simp add: stampRect_def Let_def)

lemma stampPages_map: "stampPages png pos pages = map (stampOnPage png pos) pages"
  by (induction pages) simp_all

subsection \<open>The compositors on a document that parses, with a stamp that embeds\<close>

lemma addStampToPDF_try_ok:
  assumes "file_bytes f = PdfOf pages" and "embedStamp env img = Inr png"
    and "1 \<le> n" and "n \<le> int (length pages)"
  shows "addStampToPDF_try env f img pos n =
           Inr (PdfOf (pages[nat (n - 1) := stampOnPage png pos (pages ! nat (n - 1))]))"
  using assms by (simp add: addStampToPDF_try_def Let_def)

lemma addStampToPDF_ok:
  assumes "file_bytes f = PdfOf pages" and "embedStamp env img = Inr png"
    and "1 \<le> n" and "n \<le> int (length pages)"
  shows "addStampToPDF env f img pos n =
           Inr (PdfOf (pages[nat (n - 1) := stampOnPage png pos (pages ! nat (n - 1))]))"
  by (simp add: addStampToPDF_def addStampToPDF_try_ok [OF assms])

lemma addStampToAllPDFPages_ok:
  assumes "file_bytes f = PdfOf pages" and "embedStamp env img = Inr png"
  shows "addStampToAllPDFPages env f img pos = Inr (PdfOf (map (stampOnPage png pos) pages))"
  using assms
  by (simp add: addStampToAllPDFPages_def addStampToAllPDFPages_try_def stampPages_map)

subsection \<open>The concrete stamp image\<close>

lemma split_stamp_png:
  "split_str stamp_png (CHR '','') = [''data:image/png;base64'', png_1x1_base64]"
  by (simp add: stamp_png_def png_1x1_base64_def)

lemma dataURL_stamp_png: "dataURLToBytes browser0 stamp_png = Some png_1x1"
  by (simp add: dataURLToBytes_def split_stamp_png browser0_def) (simp add: png_1x1_def)

lemma check_stamp_png: "checkStampImage browser0 stamp_png = Inr png_1x1"
  by (simp add: checkStampImage_def dataURL_stamp_png)
    (simp add: stamp_png_def startsWith_def)

lemma embed_stamp_png: "embedStamp browser0 stamp_png = Inr (PDFImage png_1x1)"
  by (simp add: embedStamp_def check_stamp_png) (simp add: browser0_def)

subsection \<open>The coordinate transform\<close>

text \<open>
  C1, as the claim states it, fails: for a placement 10 units left of the surface on a
  page of the size of the surface, the compositor's rectangle starts at \<open>-10\<close>, where the
  claimed \<open>max(0, x * scaleX)\<close> is 0.
\<close>

theorem C1_counterexample:
  "rect_x (stampRect (Some place_left) 500 (70711 / 100)) = - 10
   \<and> max 0 (rect_x place_left * (500 / 500)) = 0
   \<and> rect_x (toPageSpace_spec place_left 500 (70711 / 100)) = 0
   \<and> stampRect (Some place_left) 500 (70711 / 100) \<noteq>
       toPageSpace_spec place_left 500 (70711 / 100)"
  by (simp add: stampRect_Some toPageSpace_spec_def place_left_def)

text \<open>
  C1, amended: for every placement rectangle and every page geometry, the transform used
  when compositing gives width \<open>width * (pageWidth / 500)\<close>, height
  \<open>height * (pageHeight / 707.11)\<close>, \<open>x * scaleX\<close> without a clamp, and
  \<open>pageHeight - y * scaleY - pageRect.height\<close>; it is the transform of section 4.1, with
  \<open>max(0, x * scaleX)\<close>, whenever \<open>x\<close> and the page width are not negative; and it is
  the rectangle \<open>addStampToPDF\<close> draws at.
\<close>

theorem C1_transform:
  "stampRect (Some pos) W H =
     \<lparr>rect_x = rect_x pos * (W / 500),
      rect_y = H - rect_y pos * (H / (70711 / 100)) - rect_height pos * (H / (70711 / 100)),
      rect_width = rect_width pos * (W / 500),
      rect_height = rect_height pos * (H / (70711 / 100))\<rparr>
   \<and> (0 \<le> rect_x pos \<and> 0 \<le> W \<longrightarrow> stampRect (Some pos) W H = toPageSpace_spec pos W H)
   \<and> (file_bytes f = PdfOf pages \<and> embedStamp env img = Inr png
        \<and> 1 \<le> n \<and> n \<le> int (length pages) \<longrightarrow>
      addStampToPDF env f img (Some pos) n =
        Inr (PdfOf (pages[nat (n - 1) :=
               drawImage (pages ! nat (n - 1)) png
                 (stampRect (Some pos) (page_width (pages ! nat (n - 1)))
                    (page_height (pages ! nat (n - 1))))])))"
proof (intro conjI impI)
  show "stampRect (Some pos) W H =
     \<lparr>rect_x = rect_x pos * (W / 500),
      rect_y = H - rect_y pos * (H / (70711 / 100)) - rect_height pos * (H / (70711 / 100)),
      rect_width = rect_width pos * (W / 500),
      rect_height = rect_height pos * (H / (70711 / 100))\<rparr>"
    by (rule stampRect_Some)
next
  assume "0 \<le> rect_x pos \<and> 0 \<le> W"
  then have "0 \<le> rect_x pos * (W / 500)" by simp
  then show "stampRect (Some pos) W H = toPageSpace_spec pos W H"
    by (simp add: stampRect_Some toPageSpace_spec_def Let_def max_def)
next
  assume a: "file_bytes f = PdfOf pages \<and> embedStamp env img = Inr png
        \<and> 1 \<le> n \<and> n \<le> int (length pages)"
  then show "addStampToPDF env f img (Some pos) n =
        Inr (PdfOf (pages[nat (n - 1) :=
               drawImage (pages ! nat (n - 1)) png
                 (stampRect (Some pos) (page_width (pages ! nat (n - 1)))
                    (page_height (pages ! nat (n - 1))))]))"
    using addStampToPDF_ok [of f pages env img png n "Some pos"]
    by (simp add: stampOnPage_def)
qed

theorem C1_transform_witness:
  "stampRect (Some place0) 595 842 =
     \<lparr>rect_x = 119 / 2, rect_y = 49434662 / 70711,
      rect_width = 119, rect_height = 8420000 / 70711\<rparr>
   \<and> stampRect (Some place0) 595 842 = toPageSpace_spec place0 595 842
   \<and> addStampToPDF browser0 doc2 stamp_png (Some place0) 1 =
       Inr (PdfOf [a4\<lparr>page_drawn := [(PDFImage png_1x1,
              \<lparr>rect_x = 119 / 2, rect_y = 49434662 / 70711,
               rect_width = 119, rect_height = 8420000 / 70711\<rparr>)]\<rparr>, letter])"
  using C1_transform [of place0 595 842 doc2 "[a4, letter]" browser0 stamp_png
      "PDFImage png_1x1" 1]
  by (simp add: embed_stamp_png doc2_def place0_def a4_def drawImage_def
      toPageSpace_spec_def)

subsection \<open>Failures of the compositor and of the rasterizer\<close>

lemma addStampToPDF_fails:
  "addStampToPDF_try env f img pos n = Inl e \<Longrightarrow>
   addStampToPDF env f img pos n = Inl StampApplyFailed"
  by (simp add: addStampToPDF_def)

lemma addStampToPDF_try_garbage:
  "file_bytes f = Garbage \<Longrightarrow> addStampToPDF_try env f img pos n = Inl LoadFailed"
  by (simp add: addStampToPDF_try_def)

lemma addStampToPDF_try_out_of_range:
  assumes "file_bytes f = PdfOf pages" and "n < 1 \<or> int (length pages) < n"
  shows "addStampToPDF_try env f img pos n =
           (case embedStamp env img of
              Inl e \<Rightarrow> Inl e
            | Inr png \<Rightarrow> Inl (InvalidPageNumber (int (length pages))))"
  using assms by (auto simp add: addStampToPDF_try_def split: sum.splits)

lemma addStampToPDF_out_of_range:
  assumes "file_bytes f = PdfOf pages" and "n < 1 \<or> int (length pages) < n"
  shows "addStampToPDF env f img pos n = Inl StampApplyFailed"
proof -
  have "\<exists>e. addStampToPDF_try env f img pos n = Inl e"
    by (simp add: addStampToPDF_try_out_of_range [OF assms] split: sum.splits)
  then show ?thesis using addStampToPDF_fails by blast
qed

lemma pdfPageToImage_try_out_of_range:
  assumes "file_bytes f = PdfOf pages" and "n < 1 \<or> int (length pages) < n"
  shows "pdfPageToImage_try env f n = Inl (InvalidPageNumber (int (length pages)))"
  using assms by (auto simp add: pdfPageToImage_try_def)

lemma pdfPageToImage_try_in_range:
  assumes "file_bytes f = PdfOf pages" and "1 \<le> n" and "n \<le> int (length pages)"
  shows "pdfPageToImage_try env f n =
           (case render env (pages ! nat (n - 1)) of
              None \<Rightarrow> Inl RenderFailed
            | Some dataUrl \<Rightarrow> Inr dataUrl)"
  using assms by (simp add: pdfPageToImage_try_def)

lemma pdfPageToImage_fails:
  "pdfPageToImage_try env f n = Inl e \<Longrightarrow>
   pdfPageToImage env f n =
     \<lparr>res_image = [], res_error = Some (PageProcessingFailed n),
      res_fileName = file_name f, res_pageNumber = n\<rparr>"
  by (simp add: pdfPageToImage_def)

lemma dataURL_not_png:
  "dataURLToBytes browser0 ''data:image/png;base64,image/pngAAA'' =
     Some [138, 102, 160, 123, 250, 103, 128, 0, 0]"
  by (simp add: dataURLToBytes_def browser0_def png_1x1_base64_def)

lemma embed_not_png:
  "embedStamp browser0 ''data:image/png;base64,image/pngAAA'' = Inl EmbedFailed"
  by (simp add: embedStamp_def checkStampImage_def dataURL_not_png)
     (simp add: startsWith_def browser0_def png_1x1_def)

lemma doc2_bytes: "file_bytes doc2 = PdfOf [a4, letter]"
  by (simp add: doc2_def)

subsection \<open>When the page number is checked\<close>

text \<open>
  C2, as the claim states it, fails: with page number 0, a file that does not parse makes
  \<open>addStampToPDF\<close> fail on the parse, and a stamp whose bytes are not a PNG makes it fail
  in \<open>embedPng\<close>; both happen before the page number is looked at.
\<close>

theorem C2_counterexample:
  "addStampToPDF_try browser0 broken stamp_png None 0 = Inl LoadFailed \<and>
   addStampToPDF_try browser0 doc2 ''data:image/png;base64,image/pngAAA'' None 0 =
     Inl EmbedFailed"
proof
  show "addStampToPDF_try browser0 broken stamp_png None 0 = Inl LoadFailed"
    by (rule addStampToPDF_try_garbage) (simp add: broken_def)
  show "addStampToPDF_try browser0 doc2 ''data:image/png;base64,image/pngAAA'' None 0 =
      Inl EmbedFailed"
    using doc2_bytes by (simp add: addStampToPDF_try_out_of_range embed_not_png)
qed

text \<open>
  C2, amended: for every document and every out-of-range page number, \<open>addStampToPDF\<close>
  fails with the coarse error and returns no document, but the page number is rejected
  only after the document has been parsed and the stamp image checked, decoded and
  embedded: a file that does not parse fails on the parse, a stamp image that fails its
  checks or its embedding fails with that cause, and only otherwise the cause is the
  page number, with the valid range.
\<close>

theorem C2_page_check_after_embedding:
  assumes "n < 1 \<or> int (length pages) < n"
  shows "(file_bytes f = Garbage \<longrightarrow> addStampToPDF_try env f img pos n = Inl LoadFailed)
       \<and> (file_bytes f = PdfOf pages \<longrightarrow>
            addStampToPDF_try env f img pos n =
              (case embedStamp env img of
                 Inl e \<Rightarrow> Inl e
               | Inr png \<Rightarrow> Inl (InvalidPageNumber (int (length pages)))))
       \<and> (file_bytes f = Garbage \<or> file_bytes f = PdfOf pages \<longrightarrow>
            addStampToPDF env f img pos n = Inl StampApplyFailed)"
proof (intro conjI impI)
  assume "file_bytes f = Garbage"
  then show "addStampToPDF_try env f img pos n = Inl LoadFailed"
    by (rule addStampToPDF_try_garbage)
next
  assume "file_bytes f = PdfOf pages"
  then show "addStampToPDF_try env f img pos n =
              (case embedStamp env img of
                 Inl e \<Rightarrow> Inl e
               | Inr png \<Rightarrow> Inl (InvalidPageNumber (int (length pages))))"
    using assms by (rule addStampToPDF_try_out_of_range)
next
  assume "file_bytes f = Garbage \<or> file_bytes f = PdfOf pages"
  then show "addStampToPDF env f img pos n = Inl StampApplyFailed"
  proof
    assume "file_bytes f = Garbage"
    then have "addStampToPDF_try env f img pos n = Inl LoadFailed"
      by (rule addStampToPDF_try_garbage)
    then show ?thesis by (rule addStampToPDF_fails)
  next
    assume "file_bytes f = PdfOf pages"
    then show ?thesis using assms by (rule addStampToPDF_out_of_range)
  qed
qed

theorem C2_page_check_after_embedding_witness:
  "addStampToPDF_try browser0 doc2 stamp_png None 3 = Inl (InvalidPageNumber 2)
   \<and> addStampToPDF browser0 doc2 stamp_png None 3 = Inl StampApplyFailed
   \<and> addStampToPDF_try browser0 doc2 ''stamp.png'' None 3 = Inl NotDataURL"
proof -
  have r: "(3::int) < 1 \<or> int (length [a4, letter]) < 3" by simp
  have nd: "embedStamp browser0 ''stamp.png'' = Inl NotDataURL"
    by (simp add: embedStamp_def checkStampImage_def startsWith_def)
  show ?thesis
    using C2_page_check_after_embedding [OF r, of doc2 browser0 stamp_png None]
      C2_page_check_after_embedding [OF r, of doc2 browser0 "''stamp.png''" None]
    by (simp add: doc2_def embed_stamp_png nd)
qed

subsection \<open>Page bounds\<close>

text \<open>
  C3, as the claim states it, fails: on a document of two pages and page number 0, the
  rasterizer returns a result whose error is the page-processing message, and the
  compositor raises the coarse error; neither is the error that carries the valid range.
\<close>

theorem C3_counterexample:
  "res_error (pdfPageToImage browser0 doc2 0) = Some (PageProcessingFailed 0)
   \<and> res_error (pdfPageToImage browser0 doc2 0) \<noteq> Some (InvalidPageNumber 2)
   \<and> addStampToPDF browser0 doc2 stamp_png None 0 = Inl StampApplyFailed
   \<and> addStampToPDF browser0 doc2 stamp_png None 0 \<noteq> Inl (InvalidPageNumber 2)"
proof -
  have "pdfPageToImage_try browser0 doc2 0 = Inl (InvalidPageNumber 2)"
    using pdfPageToImage_try_out_of_range [of doc2 "[a4, letter]" 0 browser0]
    by (simp add: doc2_def)
  moreover have "addStampToPDF_try browser0 doc2 stamp_png None 0 = Inl (InvalidPageNumber 2)"
    using addStampToPDF_try_out_of_range [of doc2 "[a4, letter]" 0 browser0 stamp_png None]
    by (simp add: doc2_def embed_stamp_png)
  ultimately show ?thesis
    by (simp add: pdfPageToImage_fails addStampToPDF_fails)
qed

text \<open>
  C3, amended: for every document that parses, with \<open>P\<close> pages, and every page number
  outside \<open>1..P\<close> (0, -1 and \<open>P + 1\<close> among them), the page check of \<open>pdfPageToImage\<close>
  raises the invalid-page-number error that carries the valid range, which is caught:
  \<open>pdfPageToImage\<close> returns a result with an empty image and the page-processing error
  that carries the page number; \<open>addStampToPDF\<close> raises the coarse stamp-apply error,
  its cause being the invalid-page-number error with the valid range once the stamp image
  is embedded. For every page number in \<open>1..P\<close> the page check passes:
  \<open>pdfPageToImage\<close> succeeds when the page renders, \<open>addStampToPDF\<close> when the stamp
  image is embedded.
\<close>

theorem C3_page_bounds:
  assumes "file_bytes f = PdfOf pages"
  shows "(n < 1 \<or> int (length pages) < n \<longrightarrow>
            pdfPageToImage_try env f n = Inl (InvalidPageNumber (int (length pages)))
          \<and> pdfPageToImage env f n =
              \<lparr>res_image = [], res_error = Some (PageProcessingFailed n),
               res_fileName = file_name f, res_pageNumber = n\<rparr>
          \<and> (embedStamp env img = Inr png \<longrightarrow>
               addStampToPDF_try env f img pos n = Inl (InvalidPageNumber (int (length pages))))
          \<and> addStampToPDF env f img pos n = Inl StampApplyFailed)
       \<and> (1 \<le> n \<and> n \<le> int (length pages) \<longrightarrow>
            (render env (pages ! nat (n - 1)) = Some dataUrl \<longrightarrow>
               pdfPageToImage env f n =
                 \<lparr>res_image = dataUrl, res_error = None,
                  res_fileName = file_name f, res_pageNumber = n\<rparr>)
          \<and> (embedStamp env img = Inr png \<longrightarrow>
               addStampToPDF env f img pos n =
                 Inr (PdfOf (pages[nat (n - 1) := stampOnPage png pos (pages ! nat (n - 1))]))))"
proof (intro conjI impI)
  assume out: "n < 1 \<or> int (length pages) < n"
  show t: "pdfPageToImage_try env f n = Inl (InvalidPageNumber (int (length pages)))"
    using assms out by (rule pdfPageToImage_try_out_of_range)
  show "pdfPageToImage env f n =
              \<lparr>res_image = [], res_error = Some (PageProcessingFailed n),
               res_fileName = file_name f, res_pageNumber = n\<rparr>"
    using t by (rule pdfPageToImage_fails)
  show "addStampToPDF env f img pos n = Inl StampApplyFailed"
    using assms out by (rule addStampToPDF_out_of_range)
  assume "embedStamp env img = Inr png"
  then show "addStampToPDF_try env f img pos n = Inl (InvalidPageNumber (int (length pages)))"
    using addStampToPDF_try_out_of_range [OF assms out, of env img pos] by simp
next
  assume inr: "1 \<le> n \<and> n \<le> int (length pages)"
  {
    assume "render env (pages ! nat (n - 1)) = Some dataUrl"
    then show "pdfPageToImage env f n =
                 \<lparr>res_image = dataUrl, res_error = None,
                  res_fileName = file_name f, res_pageNumber = n\<rparr>"
      using pdfPageToImage_try_in_range [OF assms, of n env] inr
      by (simp add: pdfPageToImage_def)
  }
  {
    assume "embedStamp env img = Inr png"
    then show "addStampToPDF env f img pos n =
                 Inr (PdfOf (pages[nat (n - 1) := stampOnPage png pos (pages ! nat (n - 1))]))"
      using addStampToPDF_ok [OF assms, of env img png n pos] inr by simp
  }
qed

theorem C3_page_bounds_witness:
  "pdfPageToImage_try browser0 doc2 0 = Inl (InvalidPageNumber 2)
   \<and> pdfPageToImage_try browser0 doc2 (- 1) = Inl (InvalidPageNumber 2)
   \<and> pdfPageToImage_try browser0 doc2 3 = Inl (InvalidPageNumber 2)
   \<and> addStampToPDF_try browser0 doc2 stamp_png None 3 = Inl (InvalidPageNumber 2)
   \<and> addStampToPDF browser0 doc2 stamp_png None (- 1) = Inl StampApplyFailed
   \<and> pdfPageToImage browser0 doc2 2 =
       \<lparr>res_image = ''data:image/png;base64,PLAIN'', res_error = None,
        res_fileName = ''doc.pdf'', res_pageNumber = 2\<rparr>
   \<and> addStampToPDF browser0 doc2 stamp_png None 2 =
       Inr (PdfOf [a4, stampOnPage (PDFImage png_1x1) None letter])"
proof -
  note b = C3_page_bounds [OF doc2_bytes, where env = browser0 and img = stamp_png
      and png = "PDFImage png_1x1" and pos = None]
  have r: "render browser0 letter = Some ''data:image/png;base64,PLAIN''"
    by (simp add: browser0_def letter_def)
  show ?thesis
    using b [of 0] b [of "- 1"] b [of 3] b [of 2 "''data:image/png;base64,PLAIN''"]
    by (simp add: embed_stamp_png r) (simp add: doc2_def)
qed

subsection \<open>Every page of the document\<close>

text \<open>
  C4, as the claim states it, fails: for the placement 10 units left of the surface,
  \<open>addStampToAllPDFPages\<close> draws on the two pages of the document at negative horizontal
  coordinates, where the transform of section 4.1 gives 0 on both.
\<close>

theorem C4_counterexample:
  "addStampToAllPDFPages browser0 doc2 stamp_png (Some place_left) =
     Inr (PdfOf
       [drawImage a4 (PDFImage png_1x1)
          \<lparr>rect_x = - (119 / 10), rect_y = 52802662 / 70711,
           rect_width = 119, rect_height = 8420000 / 70711\<rparr>,
        drawImage letter (PDFImage png_1x1)
          \<lparr>rect_x = - (306 / 25), rect_y = 49667112 / 70711,
           rect_width = 612 / 5, rect_height = 7920000 / 70711\<rparr>])
   \<and> rect_x (toPageSpace_spec place_left 595 842) = 0
   \<and> rect_x (toPageSpace_spec place_left 612 792) = 0
   \<and> addStampToAllPDFPages browser0 doc2 stamp_png (Some place_left) \<noteq>
       Inr (PdfOf
         [drawImage a4 (PDFImage png_1x1) (toPageSpace_spec place_left 595 842),
          drawImage letter (PDFImage png_1x1) (toPageSpace_spec place_left 612 792)])"
proof -
  have "addStampToAllPDFPages browser0 doc2 stamp_png (Some place_left) =
      Inr (PdfOf (map (stampOnPage (PDFImage png_1x1) (Some place_left)) [a4, letter]))"
    using doc2_bytes embed_stamp_png by (rule addStampToAllPDFPages_ok)
  then show ?thesis
    by (simp add: stampOnPage_def stampRect_Some toPageSpace_spec_def place_left_def
        a4_def letter_def drawImage_def)
qed

text \<open>
  C4, amended: for every document that parses, every stamp image that embeds and every
  fixed placement rectangle, \<open>addStampToAllPDFPages\<close> draws the stamp on every page,
  at the rectangle that the compositor's transform (that of section 4.1 without the
  clamp of the horizontal coordinate) gives for that page's own width and height; where
  the placement's \<open>x\<close> and the page's width are not negative this is the rectangle of
  section 4.1.
\<close>

theorem C4_all_pages:
  assumes "file_bytes f = PdfOf pages" and "embedStamp env img = Inr png"
  shows "\<exists>pages'. addStampToAllPDFPages env f img (Some pos) = Inr (PdfOf pages')
           \<and> length pages' = length pages
           \<and> (\<forall>i < length pages.
                pages' ! i =
                  drawImage (pages ! i) png
                    (stampRect (Some pos) (page_width (pages ! i)) (page_height (pages ! i)))
                \<and> (0 \<le> rect_x pos \<and> 0 \<le> page_width (pages ! i) \<longrightarrow>
                     stampRect (Some pos) (page_width (pages ! i)) (page_height (pages ! i)) =
                     toPageSpace_spec pos (page_width (pages ! i)) (page_height (pages ! i))))"
proof (intro exI conjI allI impI)
  show "addStampToAllPDFPages env f img (Some pos) =
      Inr (PdfOf (map (stampOnPage png (Some pos)) pages))"
    using assms by (rule addStampToAllPDFPages_ok)
  show "length (map (stampOnPage png (Some pos)) pages) = length pages" by simp
next
  fix i assume "i < length pages"
  then show "map (stampOnPage png (Some pos)) pages ! i =
      drawImage (pages ! i) png
        (stampRect (Some pos) (page_width (pages ! i)) (page_height (pages ! i)))"
    by (simp add: stampOnPage_def)
next
  fix i assume "0 \<le> rect_x pos \<and> 0 \<le> page_width (pages ! i)"
  then have "0 \<le> rect_x pos * (page_width (pages ! i) / 500)" by simp
  then show "stampRect (Some pos) (page_width (pages ! i)) (page_height (pages ! i)) =
      toPageSpace_spec pos (page_width (pages ! i)) (page_height (pages ! i))"
    by (simp add: stampRect_Some toPageSpace_spec_def Let_def max_def)
qed

theorem C4_all_pages_witness:
  "addStampToAllPDFPages browser0 doc2 stamp_png (Some place0) =
     Inr (PdfOf
       [drawImage a4 (PDFImage png_1x1) (toPageSpace_spec place0 595 842),
        drawImage letter (PDFImage png_1x1) (toPageSpace_spec place0 612 792)])"
proof -
  obtain pages' where
    r: "addStampToAllPDFPages browser0 doc2 stamp_png (Some place0) = Inr (PdfOf pages')"
    and l: "length pages' = length [a4, letter]"
    and p: "\<forall>i < length [a4, letter].
        pages' ! i =
          drawImage ([a4, letter] ! i) (PDFImage png_1x1)
            (stampRect (Some place0) (page_width ([a4, letter] ! i))
               (page_height ([a4, letter] ! i)))
        \<and> (0 \<le> rect_x place0 \<and> 0 \<le> page_width ([a4, letter] ! i) \<longrightarrow>
             stampRect (Some place0) (page_width ([a4, letter] ! i))
               (page_height ([a4, letter] ! i)) =
             toPageSpace_spec place0 (page_width ([a4, letter] ! i))
               (page_height ([a4, letter] ! i)))"
    using C4_all_pages [OF doc2_bytes embed_stamp_png, of place0] by blast
  have p0: "pages' ! 0 = drawImage a4 (PDFImage png_1x1) (toPageSpace_spec place0 595 842)"
    using p [rule_format, of 0] by (simp add: a4_def place0_def)
  have p1: "pages' ! 1 =
      drawImage letter (PDFImage png_1x1) (toPageSpace_spec place0 612 792)"
    using p [rule_format, of 1] by (simp add: letter_def place0_def)
  have "pages' = [pages' ! 0, pages' ! 1]"
    using l by (cases pages'; cases "tl pages'") auto
  then show ?thesis using r p0 p1 by simp
qed

subsection \<open>The default placement\<close>

text \<open>
  C6: for every page geometry \<open>W\<close>, \<open>H\<close>, without a placement rectangle the stamp is
  drawn as a square of 100 by 100 units at \<open>x = W / 2 - 50\<close>, \<open>y = H / 2 - 50\<close>; the
  constants of the editing surface do not occur. Both compositors draw at that rectangle,
  computed from the page drawn on.
\<close>

theorem C6_default_placement:
  "stampRect None W H =
     \<lparr>rect_x = W / 2 - 50, rect_y = H / 2 - 50, rect_width = 100, rect_height = 100\<rparr>
   \<and> (file_bytes f = PdfOf pages \<and> embedStamp env img = Inr png \<longrightarrow>
        (1 \<le> n \<and> n \<le> int (length pages) \<longrightarrow>
           addStampToPDF env f img None n =
             Inr (PdfOf (pages[nat (n - 1) :=
                    drawImage (pages ! nat (n - 1)) png
                      \<lparr>rect_x = page_width (pages ! nat (n - 1)) / 2 - 50,
                       rect_y = page_height (pages ! nat (n - 1)) / 2 - 50,
                       rect_width = 100, rect_height = 100\<rparr>])))
      \<and> addStampToAllPDFPages env f img None =
          Inr (PdfOf (map (\<lambda>pg. drawImage pg png
                             \<lparr>rect_x = page_width pg / 2 - 50,
                              rect_y = page_height pg / 2 - 50,
                              rect_width = 100, rect_height = 100\<rparr>) pages)))"
proof (intro conjI impI)
  show "stampRect None W H =
     \<lparr>rect_x = W / 2 - 50, rect_y = H / 2 - 50, rect_width = 100, rect_height = 100\<rparr>"
    by (rule stampRect_None)
next
  assume a: "file_bytes f = PdfOf pages \<and> embedStamp env img = Inr png"
  then show "addStampToAllPDFPages env f img None =
          Inr (PdfOf (map (\<lambda>pg. drawImage pg png
                             \<lparr>rect_x = page_width pg / 2 - 50,
                              rect_y = page_height pg / 2 - 50,
                              rect_width = 100, rect_height = 100\<rparr>) pages))"
    using addStampToAllPDFPages_ok [of f pages env img png None]
    by (simp add: stampOnPage_def stampRect_None)
  assume "1 \<le> n \<and> n \<le> int (length pages)"
  then show "addStampToPDF env f img None n =
             Inr (PdfOf (pages[nat (n - 1) :=
                    drawImage (pages ! nat (n - 1)) png
                      \<lparr>rect_x = page_width (pages ! nat (n - 1)) / 2 - 50,
                       rect_y = page_height (pages ! nat (n - 1)) / 2 - 50,
                       rect_width = 100, rect_height = 100\<rparr>]))"
    using a addStampToPDF_ok [of f pages env img png n None]
    by (simp add: stampOnPage_def stampRect_None)
qed

theorem C6_default_placement_witness:
  "stampRect None 595 842 =
     \<lparr>rect_x = 495 / 2, rect_y = 371, rect_width = 100, rect_height = 100\<rparr>
   \<and> addStampToPDF browser0 doc2 stamp_png None 2 =
       Inr (PdfOf [a4, drawImage letter (PDFImage png_1x1)
              \<lparr>rect_x = 256, rect_y = 346, rect_width = 100, rect_height = 100\<rparr>])
   \<and> addStampToAllPDFPages browser0 doc2 stamp_png None =
       Inr (PdfOf [drawImage a4 (PDFImage png_1x1)
              \<lparr>rect_x = 495 / 2, rect_y = 371, rect_width = 100, rect_height = 100\<rparr>,
            drawImage letter (PDFImage png_1x1)
              \<lparr>rect_x = 256, rect_y = 346, rect_width = 100, rect_height = 100\<rparr>])"
  using C6_default_placement [of 595 842 doc2 "[a4, letter]" browser0 stamp_png
      "PDFImage png_1x1" 2]
  by (simp add: doc2_bytes embed_stamp_png) (simp add: a4_def letter_def)

subsection \<open>Page images with a recorded placement\<close>

text \<open>
  When the stamp of the placement is not in the library, or the compositor fails, the
  image is the one of the file as it is.
\<close>

lemma modifiedPdfFile_stamp_missing:
  "find (\<lambda>s. stamp_id s = ps_stampId ps) (stamps st) = None \<Longrightarrow>
   modifiedPdfFile env st file n ps = Inl StampNotFound"
  by (simp add: modifiedPdfFile_def)

lemma getPageImageByFile_fallback:
  assumes "find (\<lambda>s. ps_pageNumber s = n) (pageStamps st) = Some ps"
    and "modifiedPdfFile env st file n ps = Inl e"
  shows "getPageImageByFile env st file n = res_image (pdfPageToImage env file n)"
  using assms by (simp add: getPageImageByFile_def getPageImageByFile_try_def)

lemma getPageImageByFile_stamp_missing:
  assumes "find (\<lambda>s. ps_pageNumber s = n) (pageStamps st) = Some ps"
    and "find (\<lambda>s. stamp_id s = ps_stampId ps) (stamps st) = None"
  shows "getPageImageByFile env st file n = res_image (pdfPageToImage env file n)"
  using assms(1) modifiedPdfFile_stamp_missing [OF assms(2)]
  by (rule getPageImageByFile_fallback)

lemma getPageImageByFile_compositor_fails:
  assumes "find (\<lambda>s. ps_pageNumber s = n) (pageStamps st) = Some ps"
    and "find (\<lambda>s. stamp_id s = ps_stampId ps) (stamps st) = Some s"
    and "addStampToPDF env file (stamp_src s)
           (Some ((ps_position ps)\<lparr>rect_x := max 0 (rect_x (ps_position ps)),
                                   rect_y := max 0 (rect_y (ps_position ps))\<rparr>)) n = Inl e"
  shows "getPageImageByFile env st file n = res_image (pdfPageToImage env file n)"
proof -
  have "modifiedPdfFile env st file n ps = Inl e"
    using assms(2,3) by (simp add: modifiedPdfFile_def Let_def)
  with assms(1) show ?thesis by (rule getPageImageByFile_fallback)
qed

text \<open>The rectangle with both coordinates clamped, written out.\<close>

lemma clamped_position:
  "pos\<lparr>rect_x := max 0 (rect_x pos), rect_y := max 0 (rect_y pos)\<rparr> =
     \<lparr>rect_x = max 0 (rect_x pos), rect_y = max 0 (rect_y pos),
      rect_width = rect_width pos, rect_height = rect_height pos\<rparr>"
  by simp

lemma modifiedPdfFile_ok:
  assumes "find (\<lambda>s. stamp_id s = ps_stampId ps) (stamps st) = Some s"
    and "file_bytes file = PdfOf pages" and "embedStamp env (stamp_src s) = Inr png"
    and "1 \<le> n" and "n \<le> int (length pages)"
  shows "modifiedPdfFile env st file n ps =
           Inr \<lparr>file_name = file_name file,
                file_bytes = PdfOf (pages[nat (n - 1) :=
                  drawImage (pages ! nat (n - 1)) png
                    (stampRect (Some \<lparr>rect_x = max 0 (rect_x (ps_position ps)),
                                      rect_y = max 0 (rect_y (ps_position ps)),
                                      rect_width = rect_width (ps_position ps),
                                      rect_height = rect_height (ps_position ps)\<rparr>)
                       (page_width (pages ! nat (n - 1)))
                       (page_height (pages ! nat (n - 1))))])\<rparr>"
  unfolding clamped_position [symmetric] using assms
  by (simp add: modifiedPdfFile_def Let_def addStampToPDF_ok [of "file" pages env "stamp_src s" png]
      stampOnPage_def)

lemma pdfPageToImage_image:
  assumes "file_bytes f = PdfOf pages" and "1 \<le> n" and "n \<le> int (length pages)"
  shows "res_image (pdfPageToImage env f n) =
           (case render env (pages ! nat (n - 1)) of None \<Rightarrow> [] | Some dataUrl \<Rightarrow> dataUrl)"
  using pdfPageToImage_try_in_range [OF assms, of env]
  by (simp add: pdfPageToImage_def split: option.splits)

text \<open>
  When the stamp is found and embedded on a page in range, the image is what the
  renderer makes of the stamped page: its data URL, or the empty image if it fails.
\<close>

lemma getPageImageByFile_stamped:
  assumes "find (\<lambda>p. ps_pageNumber p = n) (pageStamps st) = Some ps"
    and "find (\<lambda>s. stamp_id s = ps_stampId ps) (stamps st) = Some s"
    and "file_bytes file = PdfOf pages" and "embedStamp env (stamp_src s) = Inr png"
    and "1 \<le> n" and "n \<le> int (length pages)"
  shows "getPageImageByFile env st file n =
           (case render env
                   (drawImage (pages ! nat (n - 1)) png
                      (stampRect (Some \<lparr>rect_x = max 0 (rect_x (ps_position ps)),
                                        rect_y = max 0 (rect_y (ps_position ps)),
                                        rect_width = rect_width (ps_position ps),
                                        rect_height = rect_height (ps_position ps)\<rparr>)
                         (page_width (pages ! nat (n - 1)))
                         (page_height (pages ! nat (n - 1))))) of
              None \<Rightarrow> []
            | Some dataUrl \<Rightarrow> dataUrl)"
proof -
  let ?pg = "drawImage (pages ! nat (n - 1)) png
      (stampRect (Some \<lparr>rect_x = max 0 (rect_x (ps_position ps)),
                        rect_y = max 0 (rect_y (ps_position ps)),
                        rect_width = rect_width (ps_position ps),
                        rect_height = rect_height (ps_position ps)\<rparr>)
         (page_width (pages ! nat (n - 1))) (page_height (pages ! nat (n - 1))))"
  let ?f = "\<lparr>file_name = file_name file, file_bytes = PdfOf (pages[nat (n - 1) := ?pg])\<rparr>"
  have m: "modifiedPdfFile env st file n ps = Inr ?f"
    using assms(2-6) by (rule modifiedPdfFile_ok)
  have i: "nat (n - 1) < length pages" using assms(5,6) by simp
  have "res_image (pdfPageToImage env ?f n) =
      (case render env ((pages[nat (n - 1) := ?pg]) ! nat (n - 1)) of
         None \<Rightarrow> [] | Some dataUrl \<Rightarrow> dataUrl)"
    using assms(5,6) by (intro pdfPageToImage_image) simp_all
  then have "res_image (pdfPageToImage env ?f n) =
      (case render env ?pg of None \<Rightarrow> [] | Some dataUrl \<Rightarrow> dataUrl)"
    using i by simp
  then show ?thesis
    using assms(1) m by (simp add: getPageImageByFile_def getPageImageByFile_try_def)
qed

lemma embedStamp_cong:
  "atob env = atob env' \<Longrightarrow> embedPng env = embedPng env' \<Longrightarrow>
   embedStamp env img = embedStamp env' img"
  by (auto simp add: embedStamp_def checkStampImage_def dataURLToBytes_def
      split: sum.splits option.splits)

lemma embed_browser1: "embedStamp browser1 stamp_png = Inr (PDFImage png_1x1)"
proof -
  have "embedStamp browser1 stamp_png = embedStamp browser0 stamp_png"
    by (rule embedStamp_cong) (simp_all add: browser1_def)
  then show ?thesis by (simp add: embed_stamp_png)
qed

lemma store0_placement:
  "find (\<lambda>p. ps_pageNumber p = 1) (pageStamps store0) =
     Some \<lparr>ps_pageNumber = 1, ps_stampId = ''s1'', ps_position = place_left\<rparr>"
  by (simp add: store0_def)

lemma store0_stamp:
  "find (\<lambda>s. stamp_id s = ps_stampId
        \<lparr>ps_pageNumber = 1, ps_stampId = ''s1'', ps_position = place_left\<rparr>) (stamps store0) =
     Some seal"
  by (simp add: store0_def seal_def)

lemma seal_src: "stamp_src seal = stamp_png"
  by (simp add: seal_def)

text \<open>
  C5 fails on the code: when the stamped document is produced but its rasterization
  fails, \<open>pdfPageToImage\<close> reports the failure in its result and raises nothing, so the
  \<^verbatim>\<open>catch\<close> that holds the fallback is not entered. With a recorded placement on page 1,
  its stamp (a PNG of one pixel) in the library and embedded by the compositor, and a
  renderer that fails on the stamped page only, \<open>getPageImageByFile\<close> returns the empty
  image, not the image of the unstamped page.
\<close>

theorem C5_stamped_render_failure:
  "embedStamp browser1 stamp_png = Inr (PDFImage png_1x1)
   \<and> addStampToPDF browser1 doc2 stamp_png
       (Some \<lparr>rect_x = 0, rect_y = 0, rect_width = 100, rect_height = 100\<rparr>) 1 =
       Inr (PdfOf [drawImage a4 (PDFImage png_1x1)
              \<lparr>rect_x = 0, rect_y = 842 - 8420000 / 70711,
               rect_width = 119, rect_height = 8420000 / 70711\<rparr>, letter])
   \<and> getPageImageByFile browser1 store0 doc2 1 = []
   \<and> res_image (pdfPageToImage browser1 doc2 1) = ''data:image/png;base64,PLAIN''"
proof (intro conjI)
  show "embedStamp browser1 stamp_png = Inr (PDFImage png_1x1)"
    by (rule embed_browser1)
  show "addStampToPDF browser1 doc2 stamp_png
       (Some \<lparr>rect_x = 0, rect_y = 0, rect_width = 100, rect_height = 100\<rparr>) 1 =
       Inr (PdfOf [drawImage a4 (PDFImage png_1x1)
              \<lparr>rect_x = 0, rect_y = 842 - 8420000 / 70711,
               rect_width = 119, rect_height = 8420000 / 70711\<rparr>, letter])"
    using addStampToPDF_ok [OF doc2_bytes embed_browser1, of 1]
    by (simp add: stampOnPage_def stampRect_Some a4_def)
  have "getPageImageByFile browser1 store0 doc2 1 =
      (case render browser1
              (drawImage ([a4, letter] ! nat (1 - 1)) (PDFImage png_1x1)
                 (stampRect (Some \<lparr>rect_x = max 0 (rect_x place_left),
                                   rect_y = max 0 (rect_y place_left),
                                   rect_width = rect_width place_left,
                                   rect_height = rect_height place_left\<rparr>)
                    (page_width ([a4, letter] ! nat (1 - 1)))
                    (page_height ([a4, letter] ! nat (1 - 1))))) of
         None \<Rightarrow> [] | Some dataUrl \<Rightarrow> dataUrl)"
    using getPageImageByFile_stamped [OF store0_placement store0_stamp doc2_bytes,
        of browser1 "PDFImage png_1x1"] embed_browser1
    by (simp add: seal_src)
  then show "getPageImageByFile browser1 store0 doc2 1 = []"
    by (simp add: browser1_def drawImage_def)
  have "res_image (pdfPageToImage browser1 doc2 1) =
      (case render browser1 ([a4, letter] ! nat (1 - 1)) of
         None \<Rightarrow> [] | Some dataUrl \<Rightarrow> dataUrl)"
    by (rule pdfPageToImage_image [OF doc2_bytes]) simp_all
  then show "res_image (pdfPageToImage browser1 doc2 1) = ''data:image/png;base64,PLAIN''"
    by (simp add: browser1_def a4_def)
qed

text \<open>
  C10: for every page with a recorded placement whose stamp is in the library and
  embeds, the image \<open>getPageImageByFile\<close> returns is the rendering of the page with the
  stamp drawn at the transform of the placement with \<open>x\<close> and \<open>y\<close> each replaced by its
  maximum with 0, in the units of the editing surface; so the horizontal coordinate is
  \<open>max(0, x) * scaleX\<close>, not negative on a page whose width is not negative. Called
  with the placement itself, the compositor draws at the transform of the unclamped
  rectangle: it clamps neither coordinate, and a negative \<open>x\<close> on a page of positive
  width gives a negative horizontal coordinate.
\<close>

theorem C10_clamp_before_compositor:
  assumes "find (\<lambda>p. ps_pageNumber p = n) (pageStamps st) = Some ps"
    and "find (\<lambda>s. stamp_id s = ps_stampId ps) (stamps st) = Some s"
    and "file_bytes file = PdfOf pages" and "embedStamp env (stamp_src s) = Inr png"
    and "1 \<le> n" and "n \<le> int (length pages)"
  shows "getPageImageByFile env st file n =
           (case render env
                   (drawImage (pages ! nat (n - 1)) png
                      (stampRect (Some \<lparr>rect_x = max 0 (rect_x (ps_position ps)),
                                        rect_y = max 0 (rect_y (ps_position ps)),
                                        rect_width = rect_width (ps_position ps),
                                        rect_height = rect_height (ps_position ps)\<rparr>)
                         (page_width (pages ! nat (n - 1)))
                         (page_height (pages ! nat (n - 1))))) of
              None \<Rightarrow> []
            | Some dataUrl \<Rightarrow> dataUrl)
       \<and> rect_x (stampRect (Some \<lparr>rect_x = max 0 (rect_x (ps_position ps)),
                                   rect_y = max 0 (rect_y (ps_position ps)),
                                   rect_width = rect_width (ps_position ps),
                                   rect_height = rect_height (ps_position ps)\<rparr>) W H) =
           max 0 (rect_x (ps_position ps)) * (W / 500)
       \<and> rect_y (stampRect (Some \<lparr>rect_x = max 0 (rect_x (ps_position ps)),
                                   rect_y = max 0 (rect_y (ps_position ps)),
                                   rect_width = rect_width (ps_position ps),
                                   rect_height = rect_height (ps_position ps)\<rparr>) W H) =
           H - max 0 (rect_y (ps_position ps)) * (H / (70711 / 100))
             - rect_height (ps_position ps) * (H / (70711 / 100))
       \<and> (0 \<le> W \<longrightarrow>
            0 \<le> rect_x (stampRect (Some \<lparr>rect_x = max 0 (rect_x (ps_position ps)),
                                           rect_y = max 0 (rect_y (ps_position ps)),
                                           rect_width = rect_width (ps_position ps),
                                           rect_height = rect_height (ps_position ps)\<rparr>) W H))
       \<and> addStampToPDF env file (stamp_src s) (Some (ps_position ps)) n =
           Inr (PdfOf (pages[nat (n - 1) :=
                  drawImage (pages ! nat (n - 1)) png
                    (stampRect (Some (ps_position ps)) (page_width (pages ! nat (n - 1)))
                       (page_height (pages ! nat (n - 1))))]))
       \<and> rect_x (stampRect (Some (ps_position ps)) W H) = rect_x (ps_position ps) * (W / 500)
       \<and> rect_y (stampRect (Some (ps_position ps)) W H) =
           H - rect_y (ps_position ps) * (H / (70711 / 100))
             - rect_height (ps_position ps) * (H / (70711 / 100))
       \<and> (rect_x (ps_position ps) < 0 \<and> 0 < W \<longrightarrow>
            rect_x (stampRect (Some (ps_position ps)) W H) < 0)"
proof (intro conjI impI)
  show "getPageImageByFile env st file n =
           (case render env
                   (drawImage (pages ! nat (n - 1)) png
                      (stampRect (Some \<lparr>rect_x = max 0 (rect_x (ps_position ps)),
                                        rect_y = max 0 (rect_y (ps_position ps)),
                                        rect_width = rect_width (ps_position ps),
                                        rect_height = rect_height (ps_position ps)\<rparr>)
                         (page_width (pages ! nat (n - 1)))
                         (page_height (pages ! nat (n - 1))))) of
              None \<Rightarrow> []
            | Some dataUrl \<Rightarrow> dataUrl)"
    using assms by (rule getPageImageByFile_stamped)
  show "addStampToPDF env file (stamp_src s) (Some (ps_position ps)) n =
           Inr (PdfOf (pages[nat (n - 1) :=
                  drawImage (pages ! nat (n - 1)) png
                    (stampRect (Some (ps_position ps)) (page_width (pages ! nat (n - 1)))
                       (page_height (pages ! nat (n - 1))))]))"
    using addStampToPDF_ok [OF assms(3-6), of "Some (ps_position ps)"]
    by (simp add: stampOnPage_def)
next
  assume "0 \<le> W"
  then have "0 \<le> max 0 (rect_x (ps_position ps)) * (W / 500)" by simp
  then show "0 \<le> rect_x (stampRect (Some \<lparr>rect_x = max 0 (rect_x (ps_position ps)),
                                           rect_y = max 0 (rect_y (ps_position ps)),
                                           rect_width = rect_width (ps_position ps),
                                           rect_height = rect_height (ps_position ps)\<rparr>) W H)"
    by (simp add: stampRect_Some)
next
  assume "rect_x (ps_position ps) < 0 \<and> 0 < W"
  then have "rect_x (ps_position ps) * (W / 500) < 0" by (simp add: mult_neg_pos)
  then show "rect_x (stampRect (Some (ps_position ps)) W H) < 0"
    by (simp add: stampRect_Some)
qed (simp_all add: stampRect_Some)

theorem C10_clamp_before_compositor_witness:
  "getPageImageByFile browser0 store0 doc2 1 = ''data:image/png;base64,STAMPED''
   \<and> render browser0 (drawImage a4 (PDFImage png_1x1)
        \<lparr>rect_x = 0, rect_y = 842 - 8420000 / 70711,
         rect_width = 119, rect_height = 8420000 / 70711\<rparr>) =
       Some ''data:image/png;base64,STAMPED''
   \<and> addStampToPDF browser0 doc2 stamp_png (Some place_left) 1 =
       Inr (PdfOf [drawImage a4 (PDFImage png_1x1)
              \<lparr>rect_x = - (119 / 10), rect_y = 52802662 / 70711,
               rect_width = 119, rect_height = 8420000 / 70711\<rparr>, letter])
   \<and> rect_x (stampRect (Some place_left) 595 842) < 0
   \<and> 0 \<le> rect_x (stampRect (Some \<lparr>rect_x = max 0 (rect_x place_left),
                                      rect_y = max 0 (rect_y place_left),
                                      rect_width = rect_width place_left,
                                      rect_height = rect_height place_left\<rparr>) 595 842)"
proof -
  have e: "embedStamp browser0 (stamp_src seal) = Inr (PDFImage png_1x1)"
    by (simp add: seal_src embed_stamp_png)
  have one: "(1::int) \<le> 1" "(1::int) \<le> int (length [a4, letter])" by simp_all
  note t = C10_clamp_before_compositor [OF store0_placement store0_stamp doc2_bytes e one,
      of 595 842]
  have r: "render browser0 (drawImage a4 (PDFImage png_1x1)
        \<lparr>rect_x = 0, rect_y = 842 - 8420000 / 70711,
         rect_width = 119, rect_height = 8420000 / 70711\<rparr>) =
       Some ''data:image/png;base64,STAMPED''"
    by (simp add: browser0_def drawImage_def)
  have g: "getPageImageByFile browser0 store0 doc2 1 = ''data:image/png;base64,STAMPED''"
    using t r by (simp add: place_left_def stampRect_Some a4_def)
  have a: "addStampToPDF browser0 doc2 stamp_png (Some place_left) 1 =
       Inr (PdfOf [drawImage a4 (PDFImage png_1x1)
              \<lparr>rect_x = - (119 / 10), rect_y = 52802662 / 70711,
               rect_width = 119, rect_height = 8420000 / 70711\<rparr>, letter])"
    using t by (simp add: seal_src place_left_def stampRect_Some a4_def)
  have n: "rect_x (stampRect (Some place_left) 595 842) < 0"
    using t by (simp add: place_left_def)
  have p: "0 \<le> rect_x (stampRect (Some \<lparr>rect_x = max 0 (rect_x place_left),
                                      rect_y = max 0 (rect_y place_left),
                                      rect_width = rect_width place_left,
                                      rect_height = rect_height place_left\<rparr>) 595 842)"
    using t by simp
  show ?thesis using g r a n p by blast
qed

subsection \<open>The checks on the stamp image\<close>

lemma checkStampImage_Inr_iff:
  "checkStampImage env s = Inr imageData \<longleftrightarrow>
     startsWith s ''data:'' \<and> dataURLToBytes env s = Some imageData
     \<and> includes_str s ''image/png''"
  by (auto simp add: checkStampImage_def split: option.splits)

lemma checkStampImage_cases:
  "\<not> startsWith s ''data:'' \<Longrightarrow> checkStampImage env s = Inl NotDataURL"
  "startsWith s ''data:'' \<Longrightarrow> dataURLToBytes env s = None \<Longrightarrow>
     checkStampImage env s = Inl DecodeFailed"
  "startsWith s ''data:'' \<Longrightarrow> dataURLToBytes env s = Some bytes \<Longrightarrow>
     \<not> includes_str s ''image/png'' \<Longrightarrow> checkStampImage env s = Inl NotPng"
  by (simp_all add: checkStampImage_def)

lemma compositors_stamp_rejected:
  assumes "file_bytes f = PdfOf pages" and "checkStampImage env s = Inl e"
  shows "addStampToPDF_try env f s pos n = Inl e"
    and "addStampToAllPDFPages_try env f s pos = Inl e"
    and "addStampToPDF env f s pos n = Inl StampApplyFailed"
    and "addStampToAllPDFPages env f s pos = Inl StampApplyFailed"
  using assms
  by (simp_all add: addStampToPDF_def addStampToPDF_try_def addStampToAllPDFPages_def
      addStampToAllPDFPages_try_def embedStamp_def)

text \<open>What the compositors do once the checks have passed: all of it depends on \<open>embedPng\<close>.\<close>

lemma compositors_stamp_checked:
  assumes "file_bytes f = PdfOf pages" and "checkStampImage env s = Inr bytes"
  shows "addStampToPDF_try env f s pos n =
           (case embedPng env bytes of
              None \<Rightarrow> Inl EmbedFailed
            | Some stampPng \<Rightarrow>
                if n < 1 \<or> n > int (length pages)
                then Inl (InvalidPageNumber (int (length pages)))
                else Inr (PdfOf (pages[nat (n - 1) :=
                            stampOnPage stampPng pos (pages ! nat (n - 1))])))"
    and "addStampToAllPDFPages_try env f s pos =
           (case embedPng env bytes of
              None \<Rightarrow> Inl EmbedFailed
            | Some stampPng \<Rightarrow> Inr (PdfOf (map (stampOnPage stampPng pos) pages)))"
  using assms
  by (simp_all add: addStampToPDF_try_def addStampToAllPDFPages_try_def embedStamp_def
      stampPages_map Let_def split: option.splits)

lemma compositors_reach_embedding:
  assumes "file_bytes f = PdfOf pages" and "checkStampImage env s = Inr bytes"
  shows "addStampToPDF_try env f s pos n \<noteq> Inl NotDataURL"
    and "addStampToPDF_try env f s pos n \<noteq> Inl DecodeFailed"
    and "addStampToPDF_try env f s pos n \<noteq> Inl NotPng"
    and "addStampToAllPDFPages_try env f s pos \<noteq> Inl NotDataURL"
    and "addStampToAllPDFPages_try env f s pos \<noteq> Inl DecodeFailed"
    and "addStampToAllPDFPages_try env f s pos \<noteq> Inl NotPng"
  by (simp_all add: compositors_stamp_checked [OF assms] split: option.splits)

text \<open>
  C9, as the claim states it, fails: on a document that parses, a string that starts
  with \<open>data:\<close> and contains \<open>image/png\<close> does not reach the embedding in either
  compositor when \<^verbatim>\<open>atob\<close> rejects the text after the first comma (here \<open>%%%\<close>, which is
  not base64) or when there is no comma, so that \<^verbatim>\<open>atob\<close> receives "undefined".
\<close>

theorem C9_counterexample:
  "startsWith ''data:image/png;base64,%%%'' ''data:''
   \<and> includes_str ''data:image/png;base64,%%%'' ''image/png''
   \<and> addStampToPDF_try browser0 doc2 ''data:image/png;base64,%%%'' None 1 = Inl DecodeFailed
   \<and> addStampToAllPDFPages_try browser0 doc2 ''data:image/png;base64,%%%'' None =
       Inl DecodeFailed
   \<and> startsWith ''data:image/png'' ''data:''
   \<and> includes_str ''data:image/png'' ''image/png''
   \<and> addStampToPDF_try browser0 doc2 ''data:image/png'' None 1 = Inl DecodeFailed
   \<and> addStampToAllPDFPages_try browser0 doc2 ''data:image/png'' None = Inl DecodeFailed"
proof -
  have c: "checkStampImage browser0 ''data:image/png;base64,%%%'' = Inl DecodeFailed"
    by (simp add: checkStampImage_def dataURLToBytes_def browser0_def startsWith_def
        png_1x1_base64_def)
  have d: "checkStampImage browser0 ''data:image/png'' = Inl DecodeFailed"
    by (simp add: checkStampImage_def dataURLToBytes_def browser0_def startsWith_def
        png_1x1_base64_def)
  show ?thesis
    using compositors_stamp_rejected(1,2) [OF doc2_bytes c]
      compositors_stamp_rejected(1,2) [OF doc2_bytes d]
    by (simp add: startsWith_def)
qed

text \<open>
  C9, amended: for every stamp image string and every document that parses,
  \<open>addStampToPDF\<close> and \<open>addStampToAllPDFPages\<close> get past the checks on the stamp image
  (they fail with none of the causes not-a-data-URL, not-decodable, not-PNG) iff the
  string starts with \<open>data:\<close>, \<^verbatim>\<open>atob\<close> decodes the text between its first and its second
  comma, and the string contains \<open>image/png\<close> somewhere; then \<open>embedPng\<close> is given the
  decoded bytes and its answer decides the result. A data URL that declares another
  type and whose payload contains \<open>image/png\<close> passes the checks; a string that starts
  with \<open>data:\<close>, decodes and lacks \<open>image/png\<close> fails with the not-PNG cause, which
  both compositors raise as the coarse error; one that does not decode fails with that
  cause, and one that does not start with \<open>data:\<close> as not a data URL.
\<close>

theorem C9_format_check:
  assumes "file_bytes f = PdfOf pages"
  shows "(((\<exists>rest. s = ''data:'' @ rest) \<and> (\<exists>bytes. dataURLToBytes env s = Some bytes)
            \<and> (\<exists>a b. s = a @ ''image/png'' @ b)) \<longleftrightarrow>
          (addStampToPDF_try env f s pos n \<noteq> Inl NotDataURL
           \<and> addStampToPDF_try env f s pos n \<noteq> Inl DecodeFailed
           \<and> addStampToPDF_try env f s pos n \<noteq> Inl NotPng))
       \<and> (((\<exists>rest. s = ''data:'' @ rest) \<and> (\<exists>bytes. dataURLToBytes env s = Some bytes)
            \<and> (\<exists>a b. s = a @ ''image/png'' @ b)) \<longleftrightarrow>
          (addStampToAllPDFPages_try env f s pos \<noteq> Inl NotDataURL
           \<and> addStampToAllPDFPages_try env f s pos \<noteq> Inl DecodeFailed
           \<and> addStampToAllPDFPages_try env f s pos \<noteq> Inl NotPng))
       \<and> ((\<exists>rest. s = ''data:'' @ rest) \<and> dataURLToBytes env s = Some bytes
            \<and> (\<exists>a b. s = a @ ''image/png'' @ b) \<longrightarrow>
            addStampToPDF_try env f s pos n =
              (case embedPng env bytes of
                 None \<Rightarrow> Inl EmbedFailed
               | Some stampPng \<Rightarrow>
                   if n < 1 \<or> n > int (length pages)
                   then Inl (InvalidPageNumber (int (length pages)))
                   else Inr (PdfOf (pages[nat (n - 1) :=
                               stampOnPage stampPng pos (pages ! nat (n - 1))])))
          \<and> addStampToAllPDFPages_try env f s pos =
              (case embedPng env bytes of
                 None \<Rightarrow> Inl EmbedFailed
               | Some stampPng \<Rightarrow> Inr (PdfOf (map (stampOnPage stampPng pos) pages))))
       \<and> ((\<exists>rest. s = ''data:'' @ rest) \<and> (\<exists>bytes. dataURLToBytes env s = Some bytes)
            \<and> \<not> (\<exists>a b. s = a @ ''image/png'' @ b) \<longrightarrow>
            addStampToPDF_try env f s pos n = Inl NotPng
          \<and> addStampToAllPDFPages_try env f s pos = Inl NotPng
          \<and> addStampToPDF env f s pos n = Inl StampApplyFailed
          \<and> addStampToAllPDFPages env f s pos = Inl StampApplyFailed)
       \<and> ((\<exists>rest. s = ''data:'' @ rest) \<and> dataURLToBytes env s = None \<longrightarrow>
            addStampToPDF_try env f s pos n = Inl DecodeFailed
          \<and> addStampToAllPDFPages_try env f s pos = Inl DecodeFailed)
       \<and> (\<not> (\<exists>rest. s = ''data:'' @ rest) \<longrightarrow>
            addStampToPDF_try env f s pos n = Inl NotDataURL
          \<and> addStampToAllPDFPages_try env f s pos = Inl NotDataURL)"
proof -
  let ?ok = "(\<exists>rest. s = ''data:'' @ rest) \<and> (\<exists>bytes. dataURLToBytes env s = Some bytes)
      \<and> (\<exists>a b. s = a @ ''image/png'' @ b)"
  have ok_iff: "?ok \<longleftrightarrow> (\<exists>bytes. checkStampImage env s = Inr bytes)"
    unfolding checkStampImage_Inr_iff startsWith_iff includes_str_iff by blast
  have rejected: "\<not> ?ok \<Longrightarrow>
      checkStampImage env s = Inl NotDataURL \<or> checkStampImage env s = Inl DecodeFailed
      \<or> checkStampImage env s = Inl NotPng"
    unfolding startsWith_iff [symmetric] includes_str_iff [symmetric]
    by (auto simp add: checkStampImage_def split: option.splits)
  have single: "?ok \<longleftrightarrow>
      (addStampToPDF_try env f s pos n \<noteq> Inl NotDataURL
       \<and> addStampToPDF_try env f s pos n \<noteq> Inl DecodeFailed
       \<and> addStampToPDF_try env f s pos n \<noteq> Inl NotPng)"
  proof
    assume ?ok
    then obtain bytes where "checkStampImage env s = Inr bytes" using ok_iff by blast
    then show "addStampToPDF_try env f s pos n \<noteq> Inl NotDataURL
       \<and> addStampToPDF_try env f s pos n \<noteq> Inl DecodeFailed
       \<and> addStampToPDF_try env f s pos n \<noteq> Inl NotPng"
      using compositors_reach_embedding(1-3) [OF assms] by blast
  next
    assume r: "addStampToPDF_try env f s pos n \<noteq> Inl NotDataURL
       \<and> addStampToPDF_try env f s pos n \<noteq> Inl DecodeFailed
       \<and> addStampToPDF_try env f s pos n \<noteq> Inl NotPng"
    show ?ok
    proof (rule ccontr)
      assume "\<not> ?ok"
      then have "checkStampImage env s = Inl NotDataURL
          \<or> checkStampImage env s = Inl DecodeFailed \<or> checkStampImage env s = Inl NotPng"
        by (rule rejected)
      then show False using r compositors_stamp_rejected(1) [OF assms] by metis
    qed
  qed
  have every: "?ok \<longleftrightarrow>
      (addStampToAllPDFPages_try env f s pos \<noteq> Inl NotDataURL
       \<and> addStampToAllPDFPages_try env f s pos \<noteq> Inl DecodeFailed
       \<and> addStampToAllPDFPages_try env f s pos \<noteq> Inl NotPng)"
  proof
    assume ?ok
    then obtain bytes where "checkStampImage env s = Inr bytes" using ok_iff by blast
    then show "addStampToAllPDFPages_try env f s pos \<noteq> Inl NotDataURL
       \<and> addStampToAllPDFPages_try env f s pos \<noteq> Inl DecodeFailed
       \<and> addStampToAllPDFPages_try env f s pos \<noteq> Inl NotPng"
      using compositors_reach_embedding(4-6) [OF assms] by blast
  next
    assume r: "addStampToAllPDFPages_try env f s pos \<noteq> Inl NotDataURL
       \<and> addStampToAllPDFPages_try env f s pos \<noteq> Inl DecodeFailed
       \<and> addStampToAllPDFPages_try env f s pos \<noteq> Inl NotPng"
    show ?ok
    proof (rule ccontr)
      assume "\<not> ?ok"
      then have "checkStampImage env s = Inl NotDataURL
          \<or> checkStampImage env s = Inl DecodeFailed \<or> checkStampImage env s = Inl NotPng"
        by (rule rejected)
      then show False using r compositors_stamp_rejected(2) [OF assms] by metis
    qed
  qed
  have checked: "(\<exists>rest. s = ''data:'' @ rest) \<and> dataURLToBytes env s = Some bytes
      \<and> (\<exists>a b. s = a @ ''image/png'' @ b) \<longrightarrow>
      addStampToPDF_try env f s pos n =
        (case embedPng env bytes of
           None \<Rightarrow> Inl EmbedFailed
         | Some stampPng \<Rightarrow>
             if n < 1 \<or> n > int (length pages)
             then Inl (InvalidPageNumber (int (length pages)))
             else Inr (PdfOf (pages[nat (n - 1) :=
                         stampOnPage stampPng pos (pages ! nat (n - 1))])))
      \<and> addStampToAllPDFPages_try env f s pos =
        (case embedPng env bytes of
           None \<Rightarrow> Inl EmbedFailed
         | Some stampPng \<Rightarrow> Inr (PdfOf (map (stampOnPage stampPng pos) pages)))"
  proof
    assume "(\<exists>rest. s = ''data:'' @ rest) \<and> dataURLToBytes env s = Some bytes
      \<and> (\<exists>a b. s = a @ ''image/png'' @ b)"
    then have "checkStampImage env s = Inr bytes"
      unfolding checkStampImage_Inr_iff startsWith_iff includes_str_iff by blast
    then show "addStampToPDF_try env f s pos n =
        (case embedPng env bytes of
           None \<Rightarrow> Inl EmbedFailed
         | Some stampPng \<Rightarrow>
             if n < 1 \<or> n > int (length pages)
             then Inl (InvalidPageNumber (int (length pages)))
             else Inr (PdfOf (pages[nat (n - 1) :=
                         stampOnPage stampPng pos (pages ! nat (n - 1))])))
      \<and> addStampToAllPDFPages_try env f s pos =
        (case embedPng env bytes of
           None \<Rightarrow> Inl EmbedFailed
         | Some stampPng \<Rightarrow> Inr (PdfOf (map (stampOnPage stampPng pos) pages)))"
      using compositors_stamp_checked [OF assms] by blast
  qed
  have not_png: "(\<exists>rest. s = ''data:'' @ rest) \<and> (\<exists>bytes. dataURLToBytes env s = Some bytes)
      \<and> \<not> (\<exists>a b. s = a @ ''image/png'' @ b) \<longrightarrow>
      addStampToPDF_try env f s pos n = Inl NotPng
      \<and> addStampToAllPDFPages_try env f s pos = Inl NotPng
      \<and> addStampToPDF env f s pos n = Inl StampApplyFailed
      \<and> addStampToAllPDFPages env f s pos = Inl StampApplyFailed"
  proof
    assume "(\<exists>rest. s = ''data:'' @ rest) \<and> (\<exists>bytes. dataURLToBytes env s = Some bytes)
      \<and> \<not> (\<exists>a b. s = a @ ''image/png'' @ b)"
    then have "checkStampImage env s = Inl NotPng"
      unfolding startsWith_iff [symmetric] includes_str_iff [symmetric]
      using checkStampImage_cases(3) by blast
    then show "addStampToPDF_try env f s pos n = Inl NotPng
      \<and> addStampToAllPDFPages_try env f s pos = Inl NotPng
      \<and> addStampToPDF env f s pos n = Inl StampApplyFailed
      \<and> addStampToAllPDFPages env f s pos = Inl StampApplyFailed"
      using compositors_stamp_rejected [OF assms] by blast
  qed
  have undecoded: "(\<exists>rest. s = ''data:'' @ rest) \<and> dataURLToBytes env s = None \<longrightarrow>
      addStampToPDF_try env f s pos n = Inl DecodeFailed
      \<and> addStampToAllPDFPages_try env f s pos = Inl DecodeFailed"
  proof
    assume "(\<exists>rest. s = ''data:'' @ rest) \<and> dataURLToBytes env s = None"
    then have "checkStampImage env s = Inl DecodeFailed"
      unfolding startsWith_iff [symmetric] using checkStampImage_cases(2) by blast
    then show "addStampToPDF_try env f s pos n = Inl DecodeFailed
      \<and> addStampToAllPDFPages_try env f s pos = Inl DecodeFailed"
      using compositors_stamp_rejected(1,2) [OF assms] by blast
  qed
  have no_url: "\<not> (\<exists>rest. s = ''data:'' @ rest) \<longrightarrow>
      addStampToPDF_try env f s pos n = Inl NotDataURL
      \<and> addStampToAllPDFPages_try env f s pos = Inl NotDataURL"
  proof
    assume "\<not> (\<exists>rest. s = ''data:'' @ rest)"
    then have "checkStampImage env s = Inl NotDataURL"
      unfolding startsWith_iff [symmetric] by (rule checkStampImage_cases(1))
    then show "addStampToPDF_try env f s pos n = Inl NotDataURL
      \<and> addStampToAllPDFPages_try env f s pos = Inl NotDataURL"
      using compositors_stamp_rejected(1,2) [OF assms] by blast
  qed
  show ?thesis
    using single every checked not_png undecoded no_url by blast
qed

theorem C9_format_check_witness:
  "addStampToPDF_try browser0 doc2 ''data:image/jpeg;base64,image/pngAAA'' None 1 =
     Inl EmbedFailed
   \<and> addStampToAllPDFPages_try browser0 doc2 ''data:image/jpeg;base64,image/pngAAA'' None =
       Inl EmbedFailed
   \<and> addStampToPDF_try browser0 doc2 stamp_png None 1 =
       Inr (PdfOf [stampOnPage (PDFImage png_1x1) None a4, letter])
   \<and> addStampToAllPDFPages_try browser0 doc2 stamp_png None =
       Inr (PdfOf [stampOnPage (PDFImage png_1x1) None a4,
                   stampOnPage (PDFImage png_1x1) None letter])
   \<and> addStampToPDF_try browser0 doc2 ''data:image/jpeg;base64,iVBORw0KGgo='' None 1 =
       Inl NotPng
   \<and> addStampToPDF browser0 doc2 ''data:image/jpeg;base64,iVBORw0KGgo='' None 1 =
       Inl StampApplyFailed
   \<and> addStampToPDF_try browser0 doc2 ''data:image/png;base64,%%%'' None 1 = Inl DecodeFailed
   \<and> addStampToPDF_try browser0 doc2 ''seal.png'' None 1 = Inl NotDataURL"
proof -
  note t = C9_format_check [OF doc2_bytes, where env = browser0 and pos = None and n = 1]
  note checked = t [THEN conjunct2, THEN conjunct2, THEN conjunct1, rule_format]
  note not_png = t [THEN conjunct2, THEN conjunct2, THEN conjunct2, THEN conjunct1, rule_format]
  note undecoded = t [THEN conjunct2, THEN conjunct2, THEN conjunct2, THEN conjunct2,
      THEN conjunct1, rule_format]
  note no_url = t [THEN conjunct2, THEN conjunct2, THEN conjunct2, THEN conjunct2,
      THEN conjunct2, rule_format]
  have d1: "dataURLToBytes browser0 ''data:image/jpeg;base64,image/pngAAA'' =
      Some [138, 102, 160, 123, 250, 103, 128, 0, 0]"
    by (simp add: dataURLToBytes_def browser0_def png_1x1_base64_def)
  have e1: "\<exists>rest. ''data:image/jpeg;base64,image/pngAAA'' = ''data:'' @ rest"
    "\<exists>a b. ''data:image/jpeg;base64,image/pngAAA'' = a @ ''image/png'' @ b"
    unfolding startsWith_iff [symmetric] includes_str_iff [symmetric]
    by (simp_all add: startsWith_def)
  have r1: "embedPng browser0 [138, 102, 160, 123, 250, 103, 128, 0, 0] = None"
    by (simp add: browser0_def png_1x1_def)
  have p1: "addStampToPDF_try browser0 doc2 ''data:image/jpeg;base64,image/pngAAA'' None 1 =
       Inl EmbedFailed
     \<and> addStampToAllPDFPages_try browser0 doc2 ''data:image/jpeg;base64,image/pngAAA'' None =
       Inl EmbedFailed"
    using checked [OF conjI [OF e1(1) conjI [OF d1 e1(2)]]] by (simp add: r1)
  have e2: "\<exists>rest. stamp_png = ''data:'' @ rest" "\<exists>a b. stamp_png = a @ ''image/png'' @ b"
    unfolding startsWith_iff [symmetric] includes_str_iff [symmetric]
    by (simp_all add: startsWith_def stamp_png_def)
  have r2: "embedPng browser0 png_1x1 = Some (PDFImage png_1x1)"
    by (simp add: browser0_def)
  have p2: "addStampToPDF_try browser0 doc2 stamp_png None 1 =
       Inr (PdfOf [stampOnPage (PDFImage png_1x1) None a4, letter])
     \<and> addStampToAllPDFPages_try browser0 doc2 stamp_png None =
       Inr (PdfOf [stampOnPage (PDFImage png_1x1) None a4,
                   stampOnPage (PDFImage png_1x1) None letter])"
    using checked [OF conjI [OF e2(1) conjI [OF dataURL_stamp_png e2(2)]]] by (simp add: r2)
  have d3: "dataURLToBytes browser0 ''data:image/jpeg;base64,iVBORw0KGgo='' = Some png_signature"
    by (simp add: dataURLToBytes_def browser0_def png_1x1_base64_def) (simp add: png_signature_def)
  then have d3': "\<exists>bytes. dataURLToBytes browser0 ''data:image/jpeg;base64,iVBORw0KGgo='' =
      Some bytes"
    by blast
  have e3: "\<exists>rest. ''data:image/jpeg;base64,iVBORw0KGgo='' = ''data:'' @ rest"
    "\<not> (\<exists>a b. ''data:image/jpeg;base64,iVBORw0KGgo='' = a @ ''image/png'' @ b)"
    unfolding startsWith_iff [symmetric] includes_str_iff [symmetric]
    by (simp_all add: startsWith_def)
  note q3 = not_png [OF conjI [OF e3(1) conjI [OF d3' e3(2)]]]
  have p3: "addStampToPDF_try browser0 doc2 ''data:image/jpeg;base64,iVBORw0KGgo='' None 1 =
       Inl NotPng
     \<and> addStampToPDF browser0 doc2 ''data:image/jpeg;base64,iVBORw0KGgo='' None 1 =
       Inl StampApplyFailed"
    using q3 [THEN conjunct1] q3 [THEN conjunct2, THEN conjunct2, THEN conjunct1]
    by (rule conjI)
  have d4: "dataURLToBytes browser0 ''data:image/png;base64,%%%'' = None"
    by (simp add: dataURLToBytes_def browser0_def png_1x1_base64_def)
  have e4: "\<exists>rest. ''data:image/png;base64,%%%'' = ''data:'' @ rest"
    unfolding startsWith_iff [symmetric] by (simp add: startsWith_def)
  have p4: "addStampToPDF_try browser0 doc2 ''data:image/png;base64,%%%'' None 1 =
      Inl DecodeFailed"
    by (rule undecoded [OF conjI [OF e4 d4], THEN conjunct1])
  have e5: "\<not> (\<exists>rest. ''seal.png'' = ''data:'' @ rest)" by simp
  have p5: "addStampToPDF_try browser0 doc2 ''seal.png'' None 1 = Inl NotDataURL"
    by (rule no_url [OF e5, THEN conjunct1])
  show ?thesis
    using p1 p2 p3 p4 p5 by (intro conjI) (erule conjunct1 conjunct2 | assumption)+
qed

subsection \<open>The placed object of the editing surface\<close>

lemma removePlaced_cleared:
  assumes "single_placed others ed"
  shows "canvas_objects (ed_canvas (removePlaced (useStampAdder (ed_store ed)) ed)) = others"
    and "stampObject (ed_store (removePlaced (useStampAdder (ed_store ed)) ed)) = None"
    and "ed_next (removePlaced (useStampAdder (ed_store ed)) ed) = ed_next ed"
  using assms
  by (auto simp add: single_placed_def removePlaced_def useStampAdder_def canvas_remove_def
      remove1_append split: option.splits)

lemma single_placed_others:
  assumes "single_placed others ed"
  shows "distinct others" and "list_all (\<lambda>r. r < ed_next ed) others"
  using assms by (auto simp add: single_placed_def split: option.splits)

lemma img_onload_placed:
  "stampObject (ed_store (img_onload ed w h)) = Some (ed_next ed)"
  "canvas_objects (ed_canvas (img_onload ed w h)) = canvas_objects (ed_canvas ed) @ [ed_next ed]"
  "ed_next (img_onload ed w h) = Suc (ed_next ed)"
  "selectedStamp (ed_store (img_onload ed w h)) = selectedStamp (ed_store ed)"
  by (simp_all add: img_onload_def Let_def)

lemma single_placed_removePlaced:
  assumes "single_placed others ed"
  shows "single_placed others (removePlaced (useStampAdder (ed_store ed)) ed)"
  using removePlaced_cleared [OF assms] single_placed_others [OF assms]
  by (simp add: single_placed_def)

lemma single_placed_img_onload:
  assumes "single_placed others ed"
  shows "single_placed others (img_onload (removePlaced (useStampAdder (ed_store ed)) ed) w h)"
proof -
  have "\<forall>r \<in> set others. r < ed_next ed"
    using single_placed_others(2) [OF assms] by (simp add: list_all_iff)
  then show ?thesis
    using removePlaced_cleared [OF assms] single_placed_others [OF assms]
    by (auto simp add: single_placed_def img_onload_placed list_all_iff)
qed

text \<open>
  With a render of the hook before each call, and each call awaited, the canvas keeps
  \<open>others\<close> and at most one placed object, the referenced one.
\<close>

lemma single_placed_addStampToCanvas:
  assumes "single_placed others ed"
  shows "single_placed others (fst (addStampToCanvas (useStampAdder (ed_store ed)) ed outcome))"
  using assms single_placed_removePlaced [OF assms] single_placed_img_onload [OF assms]
  by (cases outcome) (auto simp add: addStampToCanvas_def Let_def split: option.splits)

lemma single_placed_placeAll_rendered:
  "single_placed others ed \<Longrightarrow> single_placed others (placeAll_rendered ed outcomes)"
  by (induction outcomes arbitrary: ed) (simp_all add: single_placed_addStampToCanvas)

lemma editor0_placed: "single_placed [] editor0"
  by (simp add: single_placed_def editor0_def store0_def)

lemma rendered_twice:
  "canvas_objects (ed_canvas (placeAll_rendered editor0 [Loaded 200 50, Loaded 80 80])) = [1]
   \<and> stampObject (ed_store (placeAll_rendered editor0 [Loaded 200 50, Loaded 80 80])) = Some 1"
  by (simp add: addStampToCanvas_def removePlaced_def useStampAdder_def img_onload_def
      canvas_remove_def Let_def editor0_def store0_def)

text \<open>
  C7 fails on the code: \<open>addStampToCanvas\<close> removes the object that the render which
  created the callback read as \<^verbatim>\<open>stampObject\<close>, not the one the store references when
  the callback runs. When the callback of one render is awaited twice in succession,
  with a stamp selected and no object placed at the render, the first call places
  object 0 and references it; the second call still holds no placed object, removes
  nothing, and places object 1: two placed objects are on the canvas, and the first was
  not detached before the second was attached.
\<close>

theorem C7_stale_callback:
  "useStampAdder (ed_store editor0) = \<lparr>sa_selectedStamp = Some seal, sa_stampObject = None\<rparr>
   \<and> canvas_objects (ed_canvas
        (fst (addStampToCanvas (useStampAdder (ed_store editor0)) editor0 (Loaded 200 50)))) = [0]
   \<and> stampObject (ed_store
        (fst (addStampToCanvas (useStampAdder (ed_store editor0)) editor0 (Loaded 200 50)))) =
       Some 0
   \<and> canvas_objects (ed_canvas
        (placeAll (useStampAdder (ed_store editor0)) editor0 [Loaded 200 50, Loaded 80 80])) =
       [0, 1]
   \<and> stampObject (ed_store
        (placeAll (useStampAdder (ed_store editor0)) editor0 [Loaded 200 50, Loaded 80 80])) =
       Some 1
   \<and> \<not> single_placed []
        (placeAll (useStampAdder (ed_store editor0)) editor0 [Loaded 200 50, Loaded 80 80])"
  by (simp add: addStampToCanvas_def removePlaced_def useStampAdder_def img_onload_def
      canvas_remove_def Let_def editor0_def store0_def single_placed_def)

text \<open>Two calls made before either image has loaded leave two objects as well.\<close>

lemma two_loads_in_flight:
  "canvas_objects (ed_canvas
     (img_onload
        (img_onload
           (removePlaced (useStampAdder (ed_store editor0))
              (removePlaced (useStampAdder (ed_store editor0)) editor0)) 200 50) 80 80)) =
     [0, 1]"
  by (simp add: removePlaced_def useStampAdder_def img_onload_def Let_def editor0_def store0_def)

subsection \<open>The size of the stamp library\<close>

text \<open>With five assets at the render, a change event starts no reader and changes nothing.\<close>

lemma handleStampChange_full:
  "5 \<le> length rendered_stamps \<Longrightarrow> handleStampChange rendered_stamps e = None"
  by (simp add: handleStampChange_def split: option.splits)

lemma change_rejected:
  "5 \<le> length (ul_stamps u) \<Longrightarrow> library_step addStamp removeStamp u (Change e) = u"
  by (simp add: handleStampChange_full)

lemma handleStampChange_started:
  "handleStampChange rendered_stamps e = Some r \<Longrightarrow> length rendered_stamps < 5"
  by (auto simp add: handleStampChange_def split: option.splits if_splits)

lemma reader_onload_grows:
  assumes "\<forall>st s. length (stamps (addStamp st s)) \<le> Suc (length (stamps st))"
  shows "length (stamps (reader_onload addStamp st r)) \<le> Suc (length (stamps st))"
  using assms by (simp add: reader_onload_def split: option.splits)

text \<open>
  Uploads that do not overlap, each handled after a render and with its reader finished
  before anything else happens, keep a library of at most five assets at most five.
\<close>

lemma settled_upload_cap:
  assumes "\<forall>st s. length (stamps (addStamp st s)) \<le> Suc (length (stamps st))"
    and "length (stamps (ul_store u)) \<le> 5" and "ul_reading u = []"
  shows "length (stamps (ul_store (library_run addStamp removeStamp u (settled_upload e)))) \<le> 5
       \<and> ul_reading (library_run addStamp removeStamp u (settled_upload e)) = []"
proof (cases "handleStampChange (stamps (ul_store u)) e")
  case None
  then show ?thesis using assms(2,3) by (simp add: settled_upload_def)
next
  case (Some r)
  then have "length (stamps (ul_store u)) < 5" by (rule handleStampChange_started)
  moreover have "length (stamps (reader_onload addStamp (ul_store u) r))
      \<le> Suc (length (stamps (ul_store u)))"
    using assms(1) by (rule reader_onload_grows)
  ultimately show ?thesis using Some assms(3) by (simp add: settled_upload_def)
qed

lemma library_run_append:
  "library_run addStamp removeStamp u (evs @ evs') =
     library_run addStamp removeStamp (library_run addStamp removeStamp u evs) evs'"
  by (induction evs arbitrary: u) simp_all

lemma settled_uploads_cap:
  assumes "\<forall>st s. length (stamps (addStamp st s)) \<le> Suc (length (stamps st))"
  shows "length (stamps (ul_store u)) \<le> 5 \<Longrightarrow> ul_reading u = [] \<Longrightarrow>
         length (stamps (ul_store
           (library_run addStamp removeStamp u (concat (map settled_upload es))))) \<le> 5"
proof (induction es arbitrary: u)
  case Nil
  then show ?case by simp
next
  case (Cons e es)
  have "length (stamps (ul_store (library_run addStamp removeStamp u (settled_upload e)))) \<le> 5
      \<and> ul_reading (library_run addStamp removeStamp u (settled_upload e)) = []"
    using assms Cons.prems by (rule settled_upload_cap)
  then show ?case using Cons.IH by (simp add: library_run_append)
qed


end
